theory Spec2Isabelle
  imports Main "HOL-Library.Word" "HOL-Library.Multiset" "HOL-Library.Sublist"
begin

section \<open>ClubCompass: the assessment and recommendation engine\<close>

text \<open>
  This theory embeds \<^verbatim>\<open>backend/app/services/assessment_service.py\<close> (the scoring
  table, \<^verbatim>\<open>calculate_club_score\<close>, \<^verbatim>\<open>get_club_recommendations\<close>,
  \<^verbatim>\<open>create_assessment\<close>, \<^verbatim>\<open>get_assessment_by_id\<close>) and the two endpoints of
  \<^verbatim>\<open>backend/app/api/v1/assessment.py\<close> (\<^verbatim>\<open>submit_assessment\<close>,
  \<^verbatim>\<open>get_assessment\<close>).

  Conventions. Python strings are modelled as \<^typ>\<open>string\<close> (ASCII text). A Python
  \<^verbatim>\<open>dict\<close> is the list of its items in insertion order, which is the order
  \<^verbatim>\<open>.items()\<close> iterates in; lookups are \<^const>\<open>map_of\<close>. Python's unbounded
  integers are \<^typ>\<open>int\<close>. An exception is a value \<open>Inl e\<close> of the sum type
  \<open>exn + 'a\<close>. The database is a record of tables, passed in and returned; the tables
  are those that \<^verbatim>\<open>app/models\<close> declares. What the database decides on its own
  account when a commit is made (how it reads a text as a UUID, whether it accepts
  recommendation rows) is a parameter of the functions that commit.
\<close>

subsection \<open>Exceptions\<close>

text \<open>
  The exceptions that the embedded code can raise. \<open>HTTPException\<close> carries the status
  code. \<open>DataError\<close> and \<open>IntegrityError\<close> are the two failures of a
  \<^verbatim>\<open>db.commit()\<close>: a value that the column type does not accept, and a violated key
  constraint.
\<close>

datatype exn =
    ValueError
  | KeyError string
  | DataError
  | IntegrityError
  | HTTPException nat

subsection \<open>Schemas (\<^verbatim>\<open>app/schemas/assessment.py\<close>)\<close>

record ReasoningItem =
  question :: string
  answer :: string
  contribution :: int

subsection \<open>The static tables of \<^verbatim>\<open>AssessmentService\<close>\<close>

type_synonym rule = "(string \<times> (string \<times> int) list) list"

definition CLUB_SCORING_RULES :: "(string \<times> rule) list" where
  "CLUB_SCORING_RULES = [
    (''acm'', [
      (''enjoy'', [(''coding'', 4), (''designing'', 2), (''organizing'', 1), (''public_speaking'', 1), (''creative'', 2)]),
      (''domain'', [(''ai'', 3), (''robotics'', 2), (''web'', 3), (''electronics'', 1), (''management'', 0)]),
      (''impact'', [(''tech'', 4), (''social'', 1), (''cultural'', 0), (''entrepreneurship'', 2)]),
      (''past'', [(''coding'', 3), (''technical'', 3), (''cultural'', 0), (''sports'', 0), (''none'', 1)])]),
    (''teamcodelocked'', [
      (''enjoy'', [(''coding'', 5), (''designing'', 2), (''organizing'', 1), (''public_speaking'', 1), (''creative'', 1)]),
      (''domain'', [(''ai'', 2), (''robotics'', 1), (''web'', 3), (''electronics'', 1), (''management'', 0)]),
      (''impact'', [(''tech'', 5), (''social'', 0), (''cultural'', 0), (''entrepreneurship'', 1)]),
      (''past'', [(''coding'', 4), (''technical'', 3), (''cultural'', 0), (''sports'', 0), (''none'', 1)])]),
    (''gdscl'', [
      (''enjoy'', [(''coding'', 4), (''designing'', 3), (''organizing'', 2), (''public_speaking'', 2), (''creative'', 2)]),
      (''domain'', [(''ai'', 3), (''robotics'', 1), (''web'', 4), (''electronics'', 1), (''management'', 1)]),
      (''impact'', [(''tech'', 4), (''social'', 2), (''cultural'', 0), (''entrepreneurship'', 2)]),
      (''past'', [(''coding'', 3), (''technical'', 3), (''cultural'', 0), (''sports'', 0), (''none'', 2)])]),
    (''augmentai'', [
      (''enjoy'', [(''coding'', 4), (''designing'', 2), (''organizing'', 1), (''public_speaking'', 1), (''creative'', 2)]),
      (''domain'', [(''ai'', 5), (''robotics'', 2), (''web'', 2), (''electronics'', 1), (''management'', 1)]),
      (''impact'', [(''tech'', 5), (''social'', 1), (''cultural'', 0), (''entrepreneurship'', 2)]),
      (''past'', [(''coding'', 3), (''technical'', 4), (''cultural'', 0), (''sports'', 0), (''none'', 1)])]),
    (''varaince'', [
      (''enjoy'', [(''coding'', 4), (''designing'', 2), (''organizing'', 1), (''public_speaking'', 1), (''creative'', 1)]),
      (''domain'', [(''ai'', 5), (''robotics'', 1), (''web'', 2), (''electronics'', 1), (''management'', 1)]),
      (''impact'', [(''tech'', 5), (''social'', 1), (''cultural'', 0), (''entrepreneurship'', 2)]),
      (''past'', [(''coding'', 3), (''technical'', 4), (''cultural'', 0), (''sports'', 0), (''none'', 1)])]),
    (''dsync'', [
      (''enjoy'', [(''coding'', 4), (''designing'', 1), (''organizing'', 1), (''public_speaking'', 1), (''creative'', 1)]),
      (''domain'', [(''ai'', 5), (''robotics'', 1), (''web'', 3), (''electronics'', 1), (''management'', 1)]),
      (''impact'', [(''tech'', 4), (''social'', 1), (''cultural'', 0), (''entrepreneurship'', 2)]),
      (''past'', [(''coding'', 4), (''technical'', 3), (''cultural'', 0), (''sports'', 0), (''none'', 1)])]),
    (''gradient'', [
      (''enjoy'', [(''coding'', 4), (''designing'', 2), (''organizing'', 1), (''public_speaking'', 1), (''creative'', 1)]),
      (''domain'', [(''ai'', 5), (''robotics'', 2), (''web'', 2), (''electronics'', 1), (''management'', 1)]),
      (''impact'', [(''tech'', 5), (''social'', 1), (''cultural'', 0), (''entrepreneurship'', 2)]),
      (''past'', [(''coding'', 3), (''technical'', 4), (''cultural'', 0), (''sports'', 0), (''none'', 1)])]),
    (''robotics'', [
      (''enjoy'', [(''coding'', 3), (''designing'', 4), (''organizing'', 1), (''public_speaking'', 0), (''creative'', 3)]),
      (''domain'', [(''ai'', 3), (''robotics'', 5), (''web'', 1), (''electronics'', 4), (''management'', 0)]),
      (''impact'', [(''tech'', 4), (''social'', 1), (''cultural'', 0), (''entrepreneurship'', 2)]),
      (''past'', [(''coding'', 2), (''technical'', 4), (''cultural'', 0), (''sports'', 0), (''none'', 1)])]),
    (''aquila'', [
      (''enjoy'', [(''coding'', 2), (''designing'', 4), (''organizing'', 1), (''public_speaking'', 1), (''creative'', 3)]),
      (''domain'', [(''ai'', 1), (''robotics'', 5), (''web'', 0), (''electronics'', 3), (''management'', 1)]),
      (''impact'', [(''tech'', 4), (''social'', 1), (''cultural'', 0), (''entrepreneurship'', 2)]),
      (''past'', [(''coding'', 1), (''technical'', 4), (''cultural'', 0), (''sports'', 0), (''none'', 1)])]),
    (''aero'', [
      (''enjoy'', [(''coding'', 2), (''designing'', 4), (''organizing'', 1), (''public_speaking'', 1), (''creative'', 3)]),
      (''domain'', [(''ai'', 1), (''robotics'', 5), (''web'', 0), (''electronics'', 3), (''management'', 1)]),
      (''impact'', [(''tech'', 4), (''social'', 1), (''cultural'', 0), (''entrepreneurship'', 2)]),
      (''past'', [(''coding'', 1), (''technical'', 4), (''cultural'', 0), (''sports'', 0), (''none'', 1)])]),
    (''rocketry'', [
      (''enjoy'', [(''coding'', 2), (''designing'', 5), (''organizing'', 1), (''public_speaking'', 1), (''creative'', 3)]),
      (''domain'', [(''ai'', 1), (''robotics'', 4), (''web'', 0), (''electronics'', 3), (''management'', 1)]),
      (''impact'', [(''tech'', 5), (''social'', 0), (''cultural'', 0), (''entrepreneurship'', 2)]),
      (''past'', [(''coding'', 1), (''technical'', 5), (''cultural'', 0), (''sports'', 0), (''none'', 1)])]),
    (''upagraha'', [
      (''enjoy'', [(''coding'', 3), (''designing'', 4), (''organizing'', 1), (''public_speaking'', 1), (''creative'', 2)]),
      (''domain'', [(''ai'', 2), (''robotics'', 5), (''web'', 1), (''electronics'', 4), (''management'', 1)]),
      (''impact'', [(''tech'', 5), (''social'', 1), (''cultural'', 0), (''entrepreneurship'', 2)]),
      (''past'', [(''coding'', 2), (''technical'', 5), (''cultural'', 0), (''sports'', 0), (''none'', 1)])]),
    (''bullz'', [
      (''enjoy'', [(''coding'', 1), (''designing'', 5), (''organizing'', 2), (''public_speaking'', 1), (''creative'', 3)]),
      (''domain'', [(''ai'', 0), (''robotics'', 4), (''web'', 0), (''electronics'', 3), (''management'', 2)]),
      (''impact'', [(''tech'', 4), (''social'', 1), (''cultural'', 0), (''entrepreneurship'', 3)]),
      (''past'', [(''coding'', 1), (''technical'', 5), (''cultural'', 0), (''sports'', 2), (''none'', 1)])]),
    (''ieee-sb'', [
      (''enjoy'', [(''coding'', 3), (''designing'', 2), (''organizing'', 1), (''public_speaking'', 1), (''creative'', 1)]),
      (''domain'', [(''ai'', 2), (''robotics'', 3), (''web'', 2), (''electronics'', 4), (''management'', 0)]),
      (''impact'', [(''tech'', 4), (''social'', 1), (''cultural'', 0), (''entrepreneurship'', 2)]),
      (''past'', [(''coding'', 2), (''technical'', 4), (''cultural'', 0), (''sports'', 0), (''none'', 1)])]),
    (''ieee-cs'', [
      (''enjoy'', [(''coding'', 4), (''designing'', 2), (''organizing'', 1), (''public_speaking'', 1), (''creative'', 1)]),
      (''domain'', [(''ai'', 3), (''robotics'', 2), (''web'', 4), (''electronics'', 2), (''management'', 0)]),
      (''impact'', [(''tech'', 5), (''social'', 1), (''cultural'', 0), (''entrepreneurship'', 1)]),
      (''past'', [(''coding'', 4), (''technical'', 3), (''cultural'', 0), (''sports'', 0), (''none'', 1)])]),
    (''ieee-wie'', [
      (''enjoy'', [(''coding'', 3), (''designing'', 2), (''organizing'', 2), (''public_speaking'', 2), (''creative'', 1)]),
      (''domain'', [(''ai'', 2), (''robotics'', 2), (''web'', 2), (''electronics'', 3), (''management'', 2)]),
      (''impact'', [(''tech'', 3), (''social'', 3), (''cultural'', 1), (''entrepreneurship'', 2)]),
      (''past'', [(''coding'', 2), (''technical'', 3), (''cultural'', 1), (''sports'', 0), (''none'', 2)])]),
    (''ieee-pes'', [
      (''enjoy'', [(''coding'', 2), (''designing'', 3), (''organizing'', 1), (''public_speaking'', 1), (''creative'', 1)]),
      (''domain'', [(''ai'', 1), (''robotics'', 2), (''web'', 1), (''electronics'', 5), (''management'', 1)]),
      (''impact'', [(''tech'', 4), (''social'', 2), (''cultural'', 0), (''entrepreneurship'', 1)]),
      (''past'', [(''coding'', 1), (''technical'', 4), (''cultural'', 0), (''sports'', 0), (''none'', 1)])]),
    (''ieee-sps'', [
      (''enjoy'', [(''coding'', 3), (''designing'', 2), (''organizing'', 1), (''public_speaking'', 1), (''creative'', 1)]),
      (''domain'', [(''ai'', 3), (''robotics'', 1), (''web'', 1), (''electronics'', 4), (''management'', 0)]),
      (''impact'', [(''tech'', 4), (''social'', 1), (''cultural'', 0), (''entrepreneurship'', 1)]),
      (''past'', [(''coding'', 2), (''technical'', 4), (''cultural'', 0), (''sports'', 0), (''none'', 1)])]),
    (''elsoc'', [
      (''enjoy'', [(''coding'', 2), (''designing'', 4), (''organizing'', 1), (''public_speaking'', 1), (''creative'', 2)]),
      (''domain'', [(''ai'', 2), (''robotics'', 3), (''web'', 1), (''electronics'', 5), (''management'', 0)]),
      (''impact'', [(''tech'', 4), (''social'', 1), (''cultural'', 0), (''entrepreneurship'', 1)]),
      (''past'', [(''coding'', 2), (''technical'', 4), (''cultural'', 0), (''sports'', 0), (''none'', 1)])]),
    (''eeea'', [
      (''enjoy'', [(''coding'', 2), (''designing'', 3), (''organizing'', 1), (''public_speaking'', 1), (''creative'', 1)]),
      (''domain'', [(''ai'', 1), (''robotics'', 2), (''web'', 1), (''electronics'', 5), (''management'', 1)]),
      (''impact'', [(''tech'', 4), (''social'', 1), (''cultural'', 0), (''entrepreneurship'', 1)]),
      (''past'', [(''coding'', 1), (''technical'', 4), (''cultural'', 0), (''sports'', 0), (''none'', 1)])]),
    (''mea'', [
      (''enjoy'', [(''coding'', 1), (''designing'', 4), (''organizing'', 1), (''public_speaking'', 1), (''creative'', 2)]),
      (''domain'', [(''ai'', 1), (''robotics'', 3), (''web'', 0), (''electronics'', 3), (''management'', 2)]),
      (''impact'', [(''tech'', 4), (''social'', 1), (''cultural'', 0), (''entrepreneurship'', 2)]),
      (''past'', [(''coding'', 1), (''technical'', 5), (''cultural'', 0), (''sports'', 0), (''none'', 1)])]),
    (''codeio'', [
      (''enjoy'', [(''coding'', 5), (''designing'', 3), (''organizing'', 1), (''public_speaking'', 1), (''creative'', 2)]),
      (''domain'', [(''ai'', 3), (''robotics'', 1), (''web'', 4), (''electronics'', 1), (''management'', 1)]),
      (''impact'', [(''tech'', 5), (''social'', 1), (''cultural'', 0), (''entrepreneurship'', 2)]),
      (''past'', [(''coding'', 4), (''technical'', 3), (''cultural'', 0), (''sports'', 0), (''none'', 1)])]),
    (''protocol'', [
      (''enjoy'', [(''coding'', 4), (''designing'', 2), (''organizing'', 2), (''public_speaking'', 2), (''creative'', 2)]),
      (''domain'', [(''ai'', 2), (''robotics'', 1), (''web'', 3), (''electronics'', 1), (''management'', 1)]),
      (''impact'', [(''tech'', 4), (''social'', 1), (''cultural'', 0), (''entrepreneurship'', 2)]),
      (''past'', [(''coding'', 3), (''technical'', 3), (''cultural'', 0), (''sports'', 0), (''none'', 2)])]),
    (''iseclub'', [
      (''enjoy'', [(''coding'', 4), (''designing'', 2), (''organizing'', 2), (''public_speaking'', 2), (''creative'', 2)]),
      (''domain'', [(''ai'', 3), (''robotics'', 1), (''web'', 3), (''electronics'', 1), (''management'', 1)]),
      (''impact'', [(''tech'', 4), (''social'', 2), (''cultural'', 1), (''entrepreneurship'', 2)]),
      (''past'', [(''coding'', 3), (''technical'', 3), (''cultural'', 1), (''sports'', 0), (''none'', 2)])]),
    (''edc'', [
      (''enjoy'', [(''coding'', 1), (''designing'', 2), (''organizing'', 4), (''public_speaking'', 4), (''creative'', 3)]),
      (''domain'', [(''ai'', 1), (''robotics'', 0), (''web'', 2), (''electronics'', 0), (''management'', 5)]),
      (''impact'', [(''tech'', 2), (''social'', 2), (''cultural'', 1), (''entrepreneurship'', 5)]),
      (''past'', [(''coding'', 1), (''technical'', 1), (''cultural'', 1), (''sports'', 1), (''none'', 2)])]),
    (''ciie'', [
      (''enjoy'', [(''coding'', 1), (''designing'', 2), (''organizing'', 4), (''public_speaking'', 4), (''creative'', 2)]),
      (''domain'', [(''ai'', 2), (''robotics'', 0), (''web'', 2), (''electronics'', 0), (''management'', 5)]),
      (''impact'', [(''tech'', 2), (''social'', 2), (''cultural'', 0), (''entrepreneurship'', 5)]),
      (''past'', [(''coding'', 1), (''technical'', 1), (''cultural'', 0), (''sports'', 0), (''none'', 2)])]),
    (''iic'', [
      (''enjoy'', [(''coding'', 1), (''designing'', 2), (''organizing'', 4), (''public_speaking'', 3), (''creative'', 2)]),
      (''domain'', [(''ai'', 2), (''robotics'', 0), (''web'', 2), (''electronics'', 0), (''management'', 5)]),
      (''impact'', [(''tech'', 2), (''social'', 2), (''cultural'', 0), (''entrepreneurship'', 5)]),
      (''past'', [(''coding'', 1), (''technical'', 1), (''cultural'', 0), (''sports'', 0), (''none'', 2)])]),
    (''business-insights'', [
      (''enjoy'', [(''coding'', 1), (''designing'', 1), (''organizing'', 4), (''public_speaking'', 4), (''creative'', 2)]),
      (''domain'', [(''ai'', 1), (''robotics'', 0), (''web'', 1), (''electronics'', 0), (''management'', 5)]),
      (''impact'', [(''tech'', 1), (''social'', 2), (''cultural'', 0), (''entrepreneurship'', 5)]),
      (''past'', [(''coding'', 0), (''technical'', 1), (''cultural'', 1), (''sports'', 0), (''none'', 2)])]),
    (''corrtechs'', [
      (''enjoy'', [(''coding'', 2), (''designing'', 3), (''organizing'', 2), (''public_speaking'', 2), (''creative'', 2)]),
      (''domain'', [(''ai'', 3), (''robotics'', 2), (''web'', 2), (''electronics'', 3), (''management'', 2)]),
      (''impact'', [(''tech'', 4), (''social'', 4), (''cultural'', 0), (''entrepreneurship'', 3)]),
      (''past'', [(''coding'', 2), (''technical'', 3), (''cultural'', 0), (''sports'', 0), (''none'', 2)])]),
    (''synapse'', [
      (''enjoy'', [(''coding'', 1), (''designing'', 2), (''organizing'', 2), (''public_speaking'', 2), (''creative'', 2)]),
      (''domain'', [(''ai'', 2), (''robotics'', 1), (''web'', 1), (''electronics'', 2), (''management'', 2)]),
      (''impact'', [(''tech'', 3), (''social'', 3), (''cultural'', 1), (''entrepreneurship'', 2)]),
      (''past'', [(''coding'', 1), (''technical'', 3), (''cultural'', 1), (''sports'', 0), (''none'', 2)])]),
    (''pentagram'', [
      (''enjoy'', [(''coding'', 3), (''designing'', 1), (''organizing'', 2), (''public_speaking'', 2), (''creative'', 2)]),
      (''domain'', [(''ai'', 3), (''robotics'', 1), (''web'', 2), (''electronics'', 1), (''management'', 1)]),
      (''impact'', [(''tech'', 3), (''social'', 1), (''cultural'', 1), (''entrepreneurship'', 1)]),
      (''past'', [(''coding'', 3), (''technical'', 2), (''cultural'', 0), (''sports'', 0), (''none'', 2)])]),
    (''nss'', [
      (''enjoy'', [(''coding'', 0), (''designing'', 1), (''organizing'', 4), (''public_speaking'', 3), (''creative'', 2)]),
      (''domain'', [(''ai'', 0), (''robotics'', 0), (''web'', 0), (''electronics'', 0), (''management'', 3)]),
      (''impact'', [(''tech'', 0), (''social'', 5), (''cultural'', 2), (''entrepreneurship'', 1)]),
      (''past'', [(''coding'', 0), (''technical'', 0), (''cultural'', 2), (''sports'', 1), (''none'', 3)])]),
    (''rotaract'', [
      (''enjoy'', [(''coding'', 0), (''designing'', 1), (''organizing'', 5), (''public_speaking'', 4), (''creative'', 2)]),
      (''domain'', [(''ai'', 0), (''robotics'', 0), (''web'', 0), (''electronics'', 0), (''management'', 4)]),
      (''impact'', [(''tech'', 0), (''social'', 5), (''cultural'', 2), (''entrepreneurship'', 2)]),
      (''past'', [(''coding'', 0), (''technical'', 0), (''cultural'', 2), (''sports'', 1), (''none'', 3)])]),
    (''leosatva'', [
      (''enjoy'', [(''coding'', 0), (''designing'', 1), (''organizing'', 4), (''public_speaking'', 4), (''creative'', 2)]),
      (''domain'', [(''ai'', 0), (''robotics'', 0), (''web'', 0), (''electronics'', 0), (''management'', 3)]),
      (''impact'', [(''tech'', 0), (''social'', 5), (''cultural'', 1), (''entrepreneurship'', 2)]),
      (''past'', [(''coding'', 0), (''technical'', 0), (''cultural'', 1), (''sports'', 1), (''none'', 3)])]),
    (''mountaineering'', [
      (''enjoy'', [(''coding'', 0), (''designing'', 1), (''organizing'', 2), (''public_speaking'', 1), (''creative'', 3)]),
      (''domain'', [(''ai'', 0), (''robotics'', 0), (''web'', 0), (''electronics'', 0), (''management'', 1)]),
      (''impact'', [(''tech'', 0), (''social'', 3), (''cultural'', 2), (''entrepreneurship'', 1)]),
      (''past'', [(''coding'', 0), (''technical'', 0), (''cultural'', 1), (''sports'', 5), (''none'', 2)])]),
    (''respawn'', [
      (''enjoy'', [(''coding'', 1), (''designing'', 2), (''organizing'', 3), (''public_speaking'', 1), (''creative'', 3)]),
      (''domain'', [(''ai'', 1), (''robotics'', 0), (''web'', 1), (''electronics'', 0), (''management'', 2)]),
      (''impact'', [(''tech'', 2), (''social'', 3), (''cultural'', 3), (''entrepreneurship'', 1)]),
      (''past'', [(''coding'', 1), (''technical'', 1), (''cultural'', 2), (''sports'', 3), (''none'', 2)])]),
    (''ninaad'', [
      (''enjoy'', [(''coding'', 0), (''designing'', 1), (''organizing'', 1), (''public_speaking'', 3), (''creative'', 5)]),
      (''domain'', [(''ai'', 0), (''robotics'', 0), (''web'', 0), (''electronics'', 0), (''management'', 1)]),
      (''impact'', [(''tech'', 0), (''social'', 2), (''cultural'', 5), (''entrepreneurship'', 0)]),
      (''past'', [(''coding'', 0), (''technical'', 0), (''cultural'', 5), (''sports'', 0), (''none'', 2)])]),
    (''groovehouse'', [
      (''enjoy'', [(''coding'', 0), (''designing'', 2), (''organizing'', 2), (''public_speaking'', 3), (''creative'', 5)]),
      (''domain'', [(''ai'', 0), (''robotics'', 0), (''web'', 1), (''electronics'', 1), (''management'', 1)]),
      (''impact'', [(''tech'', 0), (''social'', 2), (''cultural'', 5), (''entrepreneurship'', 1)]),
      (''past'', [(''coding'', 0), (''technical'', 0), (''cultural'', 5), (''sports'', 0), (''none'', 2)])]),
    (''paramvah'', [
      (''enjoy'', [(''coding'', 0), (''designing'', 2), (''organizing'', 1), (''public_speaking'', 2), (''creative'', 5)]),
      (''domain'', [(''ai'', 0), (''robotics'', 0), (''web'', 0), (''electronics'', 0), (''management'', 1)]),
      (''impact'', [(''tech'', 0), (''social'', 2), (''cultural'', 5), (''entrepreneurship'', 0)]),
      (''past'', [(''coding'', 0), (''technical'', 0), (''cultural'', 5), (''sports'', 1), (''none'', 2)])]),
    (''danzaddix'', [
      (''enjoy'', [(''coding'', 0), (''designing'', 2), (''organizing'', 1), (''public_speaking'', 2), (''creative'', 5)]),
      (''domain'', [(''ai'', 0), (''robotics'', 0), (''web'', 0), (''electronics'', 0), (''management'', 1)]),
      (''impact'', [(''tech'', 0), (''social'', 2), (''cultural'', 5), (''entrepreneurship'', 0)]),
      (''past'', [(''coding'', 0), (''technical'', 0), (''cultural'', 5), (''sports'', 1), (''none'', 2)])]),
    (''inksanity'', [
      (''enjoy'', [(''coding'', 0), (''designing'', 1), (''organizing'', 2), (''public_speaking'', 5), (''creative'', 4)]),
      (''domain'', [(''ai'', 0), (''robotics'', 0), (''web'', 1), (''electronics'', 0), (''management'', 2)]),
      (''impact'', [(''tech'', 0), (''social'', 3), (''cultural'', 5), (''entrepreneurship'', 1)]),
      (''past'', [(''coding'', 0), (''technical'', 0), (''cultural'', 5), (''sports'', 0), (''none'', 2)])]),
    (''finearts'', [
      (''enjoy'', [(''coding'', 0), (''designing'', 3), (''organizing'', 1), (''public_speaking'', 1), (''creative'', 5)]),
      (''domain'', [(''ai'', 0), (''robotics'', 0), (''web'', 1), (''electronics'', 0), (''management'', 0)]),
      (''impact'', [(''tech'', 0), (''social'', 2), (''cultural'', 5), (''entrepreneurship'', 0)]),
      (''past'', [(''coding'', 0), (''technical'', 0), (''cultural'', 5), (''sports'', 0), (''none'', 2)])]),
    (''falcons'', [
      (''enjoy'', [(''coding'', 1), (''designing'', 4), (''organizing'', 2), (''public_speaking'', 1), (''creative'', 5)]),
      (''domain'', [(''ai'', 1), (''robotics'', 1), (''web'', 2), (''electronics'', 1), (''management'', 1)]),
      (''impact'', [(''tech'', 2), (''social'', 2), (''cultural'', 5), (''entrepreneurship'', 1)]),
      (''past'', [(''coding'', 0), (''technical'', 1), (''cultural'', 4), (''sports'', 1), (''none'', 2)])]),
    (''pravrutthi'', [
      (''enjoy'', [(''coding'', 0), (''designing'', 2), (''organizing'', 2), (''public_speaking'', 5), (''creative'', 5)]),
      (''domain'', [(''ai'', 0), (''robotics'', 0), (''web'', 0), (''electronics'', 0), (''management'', 1)]),
      (''impact'', [(''tech'', 0), (''social'', 3), (''cultural'', 5), (''entrepreneurship'', 0)]),
      (''past'', [(''coding'', 0), (''technical'', 0), (''cultural'', 5), (''sports'', 0), (''none'', 2)])]),
    (''panache'', [
      (''enjoy'', [(''coding'', 0), (''designing'', 4), (''organizing'', 3), (''public_speaking'', 2), (''creative'', 5)]),
      (''domain'', [(''ai'', 0), (''robotics'', 0), (''web'', 1), (''electronics'', 0), (''management'', 2)]),
      (''impact'', [(''tech'', 0), (''social'', 2), (''cultural'', 5), (''entrepreneurship'', 2)]),
      (''past'', [(''coding'', 0), (''technical'', 0), (''cultural'', 5), (''sports'', 0), (''none'', 2)])]),
    (''chiranthana'', [
      (''enjoy'', [(''coding'', 0), (''designing'', 1), (''organizing'', 2), (''public_speaking'', 3), (''creative'', 4)]),
      (''domain'', [(''ai'', 0), (''robotics'', 0), (''web'', 0), (''electronics'', 0), (''management'', 1)]),
      (''impact'', [(''tech'', 0), (''social'', 2), (''cultural'', 5), (''entrepreneurship'', 0)]),
      (''past'', [(''coding'', 0), (''technical'', 0), (''cultural'', 5), (''sports'', 0), (''none'', 2)])]),
    (''samskruthi'', [
      (''enjoy'', [(''coding'', 0), (''designing'', 2), (''organizing'', 2), (''public_speaking'', 3), (''creative'', 5)]),
      (''domain'', [(''ai'', 0), (''robotics'', 0), (''web'', 0), (''electronics'', 0), (''management'', 1)]),
      (''impact'', [(''tech'', 0), (''social'', 2), (''cultural'', 5), (''entrepreneurship'', 0)]),
      (''past'', [(''coding'', 0), (''technical'', 0), (''cultural'', 5), (''sports'', 0), (''none'', 2)])]),
    (''munsoc'', [
      (''enjoy'', [(''coding'', 0), (''designing'', 1), (''organizing'', 4), (''public_speaking'', 5), (''creative'', 2)]),
      (''domain'', [(''ai'', 0), (''robotics'', 0), (''web'', 0), (''electronics'', 0), (''management'', 4)]),
      (''impact'', [(''tech'', 0), (''social'', 4), (''cultural'', 3), (''entrepreneurship'', 2)]),
      (''past'', [(''coding'', 0), (''technical'', 0), (''cultural'', 3), (''sports'', 0), (''none'', 2)])])
  ]"

definition QUESTION_TEXT :: "(string \<times> string) list" where
  "QUESTION_TEXT = [
    (''enjoy'', ''What do you enjoy most?''),
    (''time'', ''How much time can you commit?''),
    (''domain'', ''Which domain are you most drawn to?''),
    (''impact'', ''What kind of impact do you want to create?''),
    (''past'', ''Past experience?'')
  ]"

definition ANSWER_TEXT :: "(string \<times> (string \<times> string) list) list" where
  "ANSWER_TEXT = [
    (''enjoy'', [
      (''coding'', ''Coding / problem solving''),
      (''designing'', ''Designing and building things''),
      (''organizing'', ''Organizing events''),
      (''public_speaking'', ''Public speaking''),
      (''creative'', ''Creative arts'')]),
    (''domain'', [
      (''ai'', ''Artificial Intelligence / Data Science''),
      (''robotics'', ''Robotics / IoT''),
      (''web'', ''Web / Mobile Development''),
      (''electronics'', ''Electronics / Hardware''),
      (''management'', ''Management / Entrepreneurship'')]),
    (''impact'', [
      (''tech'', ''Technological innovation''),
      (''social'', ''Social change''),
      (''cultural'', ''Cultural enrichment''),
      (''entrepreneurship'', ''Entrepreneurship / Business'')]),
    (''past'', [
      (''coding'', ''Coding competitions''),
      (''technical'', ''Technical projects''),
      (''cultural'', ''Cultural events''),
      (''sports'', ''Sports events''),
      (''none'', ''None, first time!'')])
  ]"

subsection \<open>\<^verbatim>\<open>calculate_club_score\<close>\<close>

text \<open>
  \<open>dict_get d k default\<close> is Python's \<^verbatim>\<open>d.get(k, default)\<close>.
\<close>

definition dict_get :: "('k \<times> 'v) list \<Rightarrow> 'k \<Rightarrow> 'v \<Rightarrow> 'v" where
  "dict_get d k dflt = (case map_of d k of None \<Rightarrow> dflt | Some v \<Rightarrow> v)"

text \<open>
  \<open>subscript d k\<close> is Python's \<^verbatim>\<open>d[k]\<close> on a dictionary with string keys: it raises
  \<^verbatim>\<open>KeyError\<close> when the key is missing.
\<close>

definition subscript :: "(string \<times> 'v) list \<Rightarrow> string \<Rightarrow> exn + 'v" where
  "subscript d k = (case map_of d k of None \<Rightarrow> Inl (KeyError k) | Some v \<Rightarrow> Inr v)"

text \<open>
  The body of the \<^verbatim>\<open>for question_key, answer_value in responses.items()\<close> loop, with the
  two local variables \<^verbatim>\<open>total_score\<close> and \<^verbatim>\<open>reasoning\<close> as accumulators. The
  subscripts \<^verbatim>\<open>QUESTION_TEXT[question_key]\<close> and \<^verbatim>\<open>ANSWER_TEXT[question_key]\<close> are
  the only places of the function that can raise.
\<close>

fun score_loop :: "rule \<Rightarrow> (string \<times> string) list \<Rightarrow> int \<Rightarrow> ReasoningItem list
    \<Rightarrow> exn + (int \<times> ReasoningItem list)" where
  "score_loop rules [] total_score reasoning = Inr (total_score, reasoning)"
| "score_loop rules ((question_key, answer_value) # rest) total_score reasoning =
     (if question_key = ''time'' then score_loop rules rest total_score reasoning
      else case map_of rules question_key of
        None \<Rightarrow> score_loop rules rest total_score reasoning
      | Some answers \<Rightarrow>
          (case map_of answers answer_value of
             None \<Rightarrow> score_loop rules rest total_score reasoning
           | Some contrib \<Rightarrow>
               if contrib > 0 then
                 (case subscript QUESTION_TEXT question_key of
                    Inl e \<Rightarrow> Inl e
                  | Inr qtext \<Rightarrow>
                      (case subscript ANSWER_TEXT question_key of
                         Inl e \<Rightarrow> Inl e
                       | Inr atexts \<Rightarrow>
                           score_loop rules rest (total_score + contrib)
                             (reasoning @ [\<lparr>question = qtext,
                                answer = dict_get atexts answer_value answer_value,
                                contribution = contrib\<rparr>])))
               else score_loop rules rest (total_score + contrib) reasoning))"

definition calculate_club_score :: "string \<Rightarrow> (string \<times> string) list
    \<Rightarrow> exn + (int \<times> ReasoningItem list)" where
  "calculate_club_score club_slug responses =
     score_loop (dict_get CLUB_SCORING_RULES club_slug []) responses 0 []"

subsection \<open>Reference definitions for the scoring claims\<close>

text \<open>
  \<open>rule_has club q a\<close> is the test of the source,
  \<^verbatim>\<open>question_key in rules and answer_value in rules[question_key]\<close>, for the rule of
  \<open>club\<close> (the empty rule when the club is not in the table).
\<close>

definition rule_has :: "string \<Rightarrow> string \<Rightarrow> string \<Rightarrow> bool" where
  "rule_has club q a =
     (case map_of (dict_get CLUB_SCORING_RULES club []) q of
        None \<Rightarrow> False
      | Some answers \<Rightarrow> map_of answers a \<noteq> None)"

text \<open>
  \<open>spec_weight club q a\<close> follows the words of the specification: the scoring-table weight
  for (club, question, answer) when the club, the question and the answer token all exist,
  and zero otherwise.
\<close>

definition spec_weight :: "string \<Rightarrow> string \<Rightarrow> string \<Rightarrow> int" where
  "spec_weight club q a =
     (case map_of CLUB_SCORING_RULES club of
        None \<Rightarrow> 0
      | Some rules \<Rightarrow>
          (case map_of rules q of
             None \<Rightarrow> 0
           | Some answers \<Rightarrow> (case map_of answers a of None \<Rightarrow> 0 | Some w \<Rightarrow> w)))"

definition rule_weight :: "rule \<Rightarrow> string \<Rightarrow> string \<Rightarrow> int" where
  "rule_weight rules q a =
     (case map_of rules q of
        None \<Rightarrow> 0
      | Some answers \<Rightarrow> (case map_of answers a of None \<Rightarrow> 0 | Some w \<Rightarrow> w))"

text \<open>The reasoning entry for question \<open>q\<close>, answer \<open>a\<close> and contribution \<open>w\<close>.\<close>

definition item_for :: "string \<Rightarrow> string \<Rightarrow> int \<Rightarrow> ReasoningItem" where
  "item_for q a w =
     \<lparr>question = dict_get QUESTION_TEXT q [],
      answer = dict_get (dict_get ANSWER_TEXT q []) a a,
      contribution = w\<rparr>"

text \<open>
  A rule is covered by the text tables when each of its question keys has an entry in
  \<^const>\<open>QUESTION_TEXT\<close> and in \<^const>\<open>ANSWER_TEXT\<close>; then the two subscripts of the loop
  cannot raise.
\<close>

definition texts_cover :: "rule \<Rightarrow> bool" where
  "texts_cover rules =
     (\<forall>q. map_of rules q \<noteq> None \<longrightarrow>
        map_of QUESTION_TEXT q \<noteq> None \<and> map_of ANSWER_TEXT q \<noteq> None)"

text \<open>
  The order in which the questions are presented is the order of \<^const>\<open>QUESTION_TEXT\<close>
  (enjoy, time, domain, impact, past), which is also the field order of the schema
  \<^verbatim>\<open>AssessmentResponses\<close>. A reasoning list is in question order when its question texts
  form a subsequence of that order.
\<close>

definition in_question_order :: "ReasoningItem list \<Rightarrow> bool" where
  "in_question_order items = subseq (map question items) (map snd QUESTION_TEXT)"

subsection \<open>The request schema\<close>

text \<open>
  \<^verbatim>\<open>AssessmentResponses\<close> has five string fields; \<^verbatim>\<open>model_dump()\<close> returns them as a
  dictionary in the order of declaration.
\<close>


record AssessmentResponses =
  enjoy :: string
  time :: string
  domain :: string
  impact :: string
  past :: string

definition model_dump :: "AssessmentResponses \<Rightarrow> (string \<times> string) list" where
  "model_dump r =
     [(''enjoy'', enjoy r), (''time'', time r), (''domain'', domain r),
      (''impact'', impact r), (''past'', past r)]"

subsection \<open>Python string operations\<close>

text \<open>
  \<open>str_replace old new s\<close> is \<^verbatim>\<open>s.replace(old, new)\<close>: the occurrences of \<open>old\<close> are
  replaced from left to right without overlap; an empty \<open>old\<close> matches before every
  character and at the end. \<open>str_strip chars s\<close> is \<^verbatim>\<open>s.strip(chars)\<close>.
\<close>

function str_replace :: "string \<Rightarrow> string \<Rightarrow> string \<Rightarrow> string" where
  "str_replace old new [] = (if old = [] then new else [])"
| "str_replace old new (c # cs) =
     (if old = [] then new @ c # str_replace old new cs
      else if take (length old) (c # cs) = old
        then new @ str_replace old new (drop (length old) (c # cs))
      else c # str_replace old new cs)"
  by pat_completeness auto
termination
  by (relation "measure (\<lambda>(old, new, s). length s)") auto

definition str_strip :: "string \<Rightarrow> string \<Rightarrow> string" where
  "str_strip chars s =
     rev (dropWhile (\<lambda>c. c \<in> set chars) (rev (dropWhile (\<lambda>c. c \<in> set chars) s)))"

text \<open>
  \<^verbatim>\<open>str.title()\<close> on ASCII text: a letter that follows a letter is lower-cased, a letter
  that does not is upper-cased, and every other character is kept.
\<close>

definition is_lower :: "char \<Rightarrow> bool" where
  "is_lower c = (97 \<le> (of_char c :: nat) \<and> (of_char c :: nat) \<le> 122)"

definition is_upper :: "char \<Rightarrow> bool" where
  "is_upper c = (65 \<le> (of_char c :: nat) \<and> (of_char c :: nat) \<le> 90)"

definition to_upper :: "char \<Rightarrow> char" where
  "to_upper c = (if is_lower c then char_of ((of_char c :: nat) - 32) else c)"

definition to_lower :: "char \<Rightarrow> char" where
  "to_lower c = (if is_upper c then char_of ((of_char c :: nat) + 32) else c)"

fun title_from :: "bool \<Rightarrow> string \<Rightarrow> string" where
  "title_from previous_is_cased [] = []"
| "title_from previous_is_cased (c # cs) =
     (if is_lower c then
        (if previous_is_cased then c else to_upper c) # title_from True cs
      else if is_upper c then
        (if previous_is_cased then to_lower c else c) # title_from True cs
      else c # title_from False cs)"

definition title :: "string \<Rightarrow> string" where
  "title s = title_from False s"

subsection \<open>UUIDs (\<^verbatim>\<open>uuid.UUID\<close> of the standard library)\<close>

text \<open>
  A UUID is a 128-bit value. \<open>uuid_str\<close> is \<^verbatim>\<open>str(u)\<close>: the 32 lower-case hexadecimal
  digits of the value in groups of 8, 4, 4, 4 and 12 separated by hyphens.
\<close>

type_synonym uuid = "128 word"

definition hex_digit :: "nat \<Rightarrow> char" where
  "hex_digit d = (if d < 10 then char_of (48 + d) else char_of (87 + d))"

fun to_hex :: "nat \<Rightarrow> nat \<Rightarrow> string" where
  "to_hex 0 n = []"
| "to_hex (Suc k) n = to_hex k (n div 16) @ [hex_digit (n mod 16)]"

definition uuid_str :: "uuid \<Rightarrow> string" where
  "uuid_str u =
     (let hex = to_hex 32 (unat u)
      in take 8 hex @ ''-'' @ take 4 (drop 8 hex) @ ''-'' @ take 4 (drop 12 hex) @ ''-'' @
         take 4 (drop 16 hex) @ ''-'' @ drop 20 hex)"

text \<open>
  \<open>int_base16 s\<close> is \<^verbatim>\<open>int(s, 16)\<close> on ASCII text: white space around the number is
  skipped, a sign and a prefix \<^verbatim>\<open>0x\<close> are optional, single underscores may separate digits
  (one may follow the prefix), and anything else raises \<^verbatim>\<open>ValueError\<close>.
\<close>

definition is_space :: "char \<Rightarrow> bool" where
  "is_space c = (c \<in> set [CHR 0x09, CHR 0x0A, CHR 0x0B, CHR 0x0C, CHR 0x0D, CHR '' ''])"

definition digit_value :: "char \<Rightarrow> nat option" where
  "digit_value c =
     (let n = (of_char c :: nat)
      in if 48 \<le> n \<and> n \<le> 57 then Some (n - 48)
         else if 97 \<le> n \<and> n \<le> 102 then Some (n - 87)
         else if 65 \<le> n \<and> n \<le> 70 then Some (n - 55)
         else None)"

definition is_digit_or_underscore :: "char \<Rightarrow> bool" where
  "is_digit_or_underscore c = (digit_value c \<noteq> None \<or> c = CHR ''_'')"

fun digits_value :: "nat \<Rightarrow> string \<Rightarrow> nat" where
  "digits_value acc [] = acc"
| "digits_value acc (c # cs) =
     (case digit_value c of
        None \<Rightarrow> digits_value acc cs
      | Some d \<Rightarrow> digits_value (16 * acc + d) cs)"

fun underscores_ok :: "char \<Rightarrow> string \<Rightarrow> bool" where
  "underscores_ok prev [] = (prev \<noteq> CHR ''_'')"
| "underscores_ok prev (c # cs) =
     (\<not> (c = CHR ''_'' \<and> prev = CHR ''_'') \<and> underscores_ok c cs)"

definition skip_sign :: "string \<Rightarrow> string" where
  "skip_sign s =
     (case s of
        [] \<Rightarrow> []
      | c # r \<Rightarrow> if c = CHR ''+'' \<or> c = CHR ''-'' then r else s)"

definition skip_prefix :: "string \<Rightarrow> string" where
  "skip_prefix s =
     (case s of
        c0 # c1 # r \<Rightarrow>
          if c0 = CHR ''0'' \<and> (c1 = CHR ''x'' \<or> c1 = CHR ''X'')
          then (case r of [] \<Rightarrow> r | c2 # r' \<Rightarrow> if c2 = CHR ''_'' then r' else r)
          else s
      | _ \<Rightarrow> s)"

definition int_base16 :: "string \<Rightarrow> exn + int" where
  "int_base16 s =
     (let s1 = dropWhile is_space s;
          sign = (case s1 of [] \<Rightarrow> 1 | c # _ \<Rightarrow> if c = CHR ''-'' then - 1 else (1::int));
          s3 = skip_prefix (skip_sign s1);
          body = takeWhile is_digit_or_underscore s3;
          rest = dropWhile is_digit_or_underscore s3
      in if body = [] \<or> hd body = CHR ''_'' \<or> \<not> underscores_ok (CHR 0x00) body
            \<or> dropWhile is_space rest \<noteq> []
         then Inl ValueError
         else Inr (sign * int (digits_value 0 body)))"

text \<open>
  \<open>uuid_UUID s\<close> is \<^verbatim>\<open>uuid.UUID(s)\<close>: the prefixes \<^verbatim>\<open>urn:\<close> and \<^verbatim>\<open>uuid:\<close>, outer braces and
  hyphens are removed, 32 characters must remain, and they are read by \<^verbatim>\<open>int(hex, 16)\<close>.
\<close>

definition uuid_UUID :: "string \<Rightarrow> exn + uuid" where
  "uuid_UUID s =
     (let hex1 = str_replace ''uuid:'' [] (str_replace ''urn:'' [] s);
          hex2 = str_replace ''-'' [] (str_strip ''{}'' hex1)
      in if length hex2 \<noteq> 32 then Inl ValueError
         else case int_base16 hex2 of
                Inl e \<Rightarrow> Inl e
              | Inr n \<Rightarrow>
                  if \<not> (0 \<le> n \<and> n < 2 ^ 128) then Inl ValueError
                  else Inr (word_of_int n))"

subsection \<open>The ORM models (\<^verbatim>\<open>app/models\<close>) and the database\<close>

text \<open>
  Only the columns that the assessment code reads or writes are kept. The surrogate key of
  a recommendation row, which no code path reads, is left out. \<open>created_at\<close> is a
  timestamp, a natural number.
\<close>

record Club =
  c_id :: uuid
  c_name :: string
  c_slug :: string
  c_tagline :: "string option"
  c_logo_url :: "string option"
  c_is_active :: bool

record Assessment =
  a_id :: uuid
  a_user_id :: "uuid option"
  a_responses :: "(string \<times> string) list"
  a_created_at :: nat

record Recommendation =
  r_assessment_id :: uuid
  r_club_id :: string
  r_score :: int
  r_rank :: int
  r_reasoning :: "ReasoningItem list option"

record database =
  tbl_users :: "uuid list"
  tbl_clubs :: "Club list"
  tbl_assessments :: "Assessment list"
  tbl_recommendations :: "Recommendation list"

subsection \<open>The response schemas\<close>

text \<open>
  The \<^verbatim>\<open>club\<close> field of a \<^verbatim>\<open>ClubRecommendation\<close> is a dictionary with the string keys
  \<^verbatim>\<open>id\<close>, \<^verbatim>\<open>name\<close>, \<^verbatim>\<open>slug\<close>, \<^verbatim>\<open>tagline\<close> and \<^verbatim>\<open>logo_url\<close>.
\<close>

record ClubRecommendation =
  cr_club :: "(string \<times> string) list"
  cr_score :: int
  cr_rank :: int
  cr_reasoning :: "ReasoningItem list"

record AssessmentResult =
  ar_assessment_id :: string
  ar_recommendations :: "ClubRecommendation list"
  ar_created_at :: nat

record AssessmentCreate =
  ac_responses :: AssessmentResponses
  ac_user_id :: "string option"

text \<open>The entries of the local list \<^verbatim>\<open>scored_clubs\<close>.\<close>

record ScoredClub =
  sc_club :: "(string \<times> string) list"
  sc_score :: int
  sc_reasoning :: "ReasoningItem list"

subsection \<open>\<^verbatim>\<open>get_club_recommendations\<close>\<close>

text \<open>\<open>or_else v d\<close> is \<^verbatim>\<open>v or d\<close> for an optional string: \<^verbatim>\<open>None\<close> and \<^verbatim>\<open>""\<close> are falsy.\<close>

definition or_else :: "string option \<Rightarrow> string \<Rightarrow> string" where
  "or_else v d = (case v of None \<Rightarrow> d | Some s \<Rightarrow> if s = [] then d else s)"

text \<open>\<open>slice_to xs n\<close> is the slice \<^verbatim>\<open>xs[:n]\<close>; a negative \<open>n\<close> counts from the end.\<close>

definition slice_to :: "'a list \<Rightarrow> int \<Rightarrow> 'a list" where
  "slice_to xs n =
     (if 0 \<le> n then take (nat n) xs else take (length xs - nat (- n)) xs)"

text \<open>\<open>py_enumerate start xs\<close> is \<^verbatim>\<open>enumerate(xs, start=start)\<close>.\<close>

fun py_enumerate :: "int \<Rightarrow> 'a list \<Rightarrow> (int \<times> 'a) list" where
  "py_enumerate start [] = []"
| "py_enumerate start (x # xs) = (start, x) # py_enumerate (start + 1) xs"

text \<open>
  \<open>sort_reverse key xs\<close> is \<^verbatim>\<open>xs.sort(key=key, reverse=True)\<close>: the list is reversed,
  sorted stably in ascending order of the key and reversed again, so that elements with
  equal keys keep their order.
\<close>

definition sort_reverse :: "('a \<Rightarrow> int) \<Rightarrow> 'a list \<Rightarrow> 'a list" where
  "sort_reverse key xs = rev (sort_key key (rev xs))"

text \<open>
  The loop \<^verbatim>\<open>for db_club in db_clubs\<close>, which collects \<^verbatim>\<open>scored_clubs\<close>.
\<close>

fun score_clubs :: "Club list \<Rightarrow> (string \<times> string) list \<Rightarrow> exn + ScoredClub list" where
  "score_clubs [] responses = Inr []"
| "score_clubs (db_club # rest) responses =
     (if map_of CLUB_SCORING_RULES (c_slug db_club) \<noteq> None then
        (case calculate_club_score (c_slug db_club) responses of
           Inl e \<Rightarrow> Inl e
         | Inr (club_score, club_reasoning) \<Rightarrow>
             (case score_clubs rest responses of
                Inl e \<Rightarrow> Inl e
              | Inr scored \<Rightarrow>
                  Inr (\<lparr>sc_club =
                          [(''id'', uuid_str (c_id db_club)),
                           (''name'', c_name db_club),
                           (''slug'', c_slug db_club),
                           (''tagline'', or_else (c_tagline db_club) []),
                           (''logo_url'', or_else (c_logo_url db_club)
                              (''/images/clubs/'' @ c_slug db_club @ ''.jpg''))],
                        sc_score = club_score,
                        sc_reasoning = club_reasoning\<rparr> # scored)))
      else score_clubs rest responses)"

definition get_club_recommendations ::
    "database \<Rightarrow> (string \<times> string) list \<Rightarrow> int \<Rightarrow> exn + ClubRecommendation list" where
  "get_club_recommendations db resp top_n =
     (let db_clubs = filter c_is_active (tbl_clubs db)
      in if db_clubs = [] then Inr []
         else case score_clubs db_clubs resp of
                Inl e \<Rightarrow> Inl e
              | Inr scored_clubs \<Rightarrow>
                  if scored_clubs = [] then Inr []
                  else Inr (map (\<lambda>(position, item).
                                   \<lparr>cr_club = sc_club item, cr_score = sc_score item,
                                    cr_rank = position, cr_reasoning = sc_reasoning item\<rparr>)
                             (py_enumerate 1
                                (slice_to (sort_reverse sc_score scored_clubs) top_n))))"

subsection \<open>\<^verbatim>\<open>create_assessment\<close>\<close>

text \<open>
  The identifier drawn by \<^verbatim>\<open>uuid.uuid4()\<close> and the timestamp of the column default are
  parameters \<open>new_id\<close> and \<open>now\<close>.

  \<open>insert_assessment\<close> is the first \<^verbatim>\<open>db.add(assessment); db.commit()\<close>. The owner
  reference arrives as text and the column \<^verbatim>\<open>assessments.user_id\<close> is a UUID with a
  foreign key to \<^verbatim>\<open>users.id\<close>. How the database reads the text as a UUID is not part
  of the repository, so it is a parameter: \<open>uuid_in text\<close> is the UUID that the database
  reads, or \<open>None\<close> when it refuses the text, in which case the commit raises
  \<open>DataError\<close>. The commit raises \<open>IntegrityError\<close> when the primary key is already
  taken or when the owner is not a stored user. Otherwise the row is stored, and it stays
  stored whatever happens afterwards.
\<close>

definition insert_assessment ::
    "(string \<Rightarrow> uuid option) \<Rightarrow> database \<Rightarrow> uuid \<Rightarrow> string option
      \<Rightarrow> (string \<times> string) list \<Rightarrow> nat \<Rightarrow> exn + (database \<times> Assessment)" where
  "insert_assessment uuid_in db new_id owner resp now =
     (case (case owner of
              None \<Rightarrow> Some None
            | Some text \<Rightarrow> map_option Some (uuid_in text)) of
        None \<Rightarrow> Inl DataError
      | Some owner_id \<Rightarrow>
          if new_id \<in> set (map a_id (tbl_assessments db))
             \<or> (case owner_id of None \<Rightarrow> False | Some u \<Rightarrow> u \<notin> set (tbl_users db))
          then Inl IntegrityError
          else
            (let assessment = \<lparr>a_id = new_id, a_user_id = owner_id, a_responses = resp,
                                a_created_at = now\<rparr>
             in Inr (db\<lparr>tbl_assessments := tbl_assessments db @ [assessment]\<rparr>,
                     assessment)))"

text \<open>
  \<open>insert_recommendations\<close> is the second commit, after the loop of
  \<^verbatim>\<open>db.add(recommendation)\<close>. With no row added there is nothing to refuse. Whether the
  database accepts the rows depends on the table in use and not on the code (the ORM model
  declares \<^verbatim>\<open>club_id\<close> as a string that holds the slug, while the first migration
  declares it as a UUID with a foreign key and a uniqueness constraint), so the verdict is a
  parameter: \<open>commit_rows rows\<close> is the exception that the commit raises, or \<open>None\<close>
  when the rows are stored.
\<close>

definition insert_recommendations ::
    "(Recommendation list \<Rightarrow> exn option) \<Rightarrow> database \<Rightarrow> Recommendation list
      \<Rightarrow> exn + database" where
  "insert_recommendations commit_rows db rows =
     (if rows = [] then Inr db
      else case commit_rows rows of
             Some e \<Rightarrow> Inl e
           | None \<Rightarrow> Inr (db\<lparr>tbl_recommendations := tbl_recommendations db @ rows\<rparr>))"

text \<open>
  \<^verbatim>\<open>create_assessment\<close> itself. The recommendations are computed with the default
  \<^verbatim>\<open>top_n = 10\<close>; \<^verbatim>\<open>rec.club["slug"]\<close> is a dictionary subscript.
\<close>

definition create_assessment ::
    "(string \<Rightarrow> uuid option) \<Rightarrow> (Recommendation list \<Rightarrow> exn option) \<Rightarrow> database
      \<Rightarrow> AssessmentCreate \<Rightarrow> uuid \<Rightarrow> nat \<Rightarrow> database \<times> (exn + Assessment)" where
  "create_assessment uuid_in commit_rows db assessment_data new_id now =
     (case insert_assessment uuid_in db new_id (ac_user_id assessment_data)
             (model_dump (ac_responses assessment_data)) now of
        Inl e \<Rightarrow> (db, Inl e)
      | Inr (db1, assessment) \<Rightarrow>
          (case get_club_recommendations db1 (model_dump (ac_responses assessment_data)) 10 of
             Inl e \<Rightarrow> (db1, Inl e)
           | Inr recs \<Rightarrow>
               (case those (map (\<lambda>r. map_of (cr_club r) ''slug'') recs) of
                  None \<Rightarrow> (db1, Inl (KeyError ''slug''))
                | Some slugs \<Rightarrow>
                    (case insert_recommendations commit_rows db1
                            (map (\<lambda>(r, club_slug).
                                    \<lparr>r_assessment_id = a_id assessment,
                                     r_club_id = club_slug,
                                     r_score = cr_score r,
                                     r_rank = cr_rank r,
                                     r_reasoning = Some (cr_reasoning r)\<rparr>)
                               (zip recs slugs)) of
                       Inl e \<Rightarrow> (db1, Inl e)
                     | Inr db2 \<Rightarrow> (db2, Inr assessment)))))"

subsection \<open>\<^verbatim>\<open>get_assessment_by_id\<close> and \<^verbatim>\<open>get_club_by_slug\<close>\<close>

text \<open>
  The \<^verbatim>\<open>try\<close> block catches \<^verbatim>\<open>ValueError\<close> only; any other exception would propagate.
  \<^verbatim>\<open>.first()\<close> is the first matching row, if any.
\<close>

definition get_assessment_by_id :: "database \<Rightarrow> string \<Rightarrow> exn + Assessment option" where
  "get_assessment_by_id db aid =
     (case uuid_UUID aid of
        Inl ValueError \<Rightarrow> Inr None
      | Inl e \<Rightarrow> Inl e
      | Inr assessment_uuid \<Rightarrow>
          Inr (find (\<lambda>a. a_id a = assessment_uuid) (tbl_assessments db)))"

definition get_club_by_slug :: "database \<Rightarrow> string \<Rightarrow> Club option" where
  "get_club_by_slug db club_slug = find (\<lambda>c. c_slug c = club_slug) (tbl_clubs db)"

subsection \<open>The endpoints (\<^verbatim>\<open>app/api/v1/assessment.py\<close>)\<close>

text \<open>
  \<^verbatim>\<open>submit_assessment\<close>: \<open>current_user\<close> is the id of the authenticated user, if any;
  \<open>uuid_in\<close> and \<open>commit_rows\<close> are the parameters of \<^const>\<open>create_assessment\<close>.
  Every exception of the body is turned into the HTTP status 500.
\<close>

definition submit_assessment ::
    "(string \<Rightarrow> uuid option) \<Rightarrow> (Recommendation list \<Rightarrow> exn option) \<Rightarrow> database
      \<Rightarrow> AssessmentCreate \<Rightarrow> uuid option \<Rightarrow> uuid \<Rightarrow> nat
      \<Rightarrow> database \<times> (exn + AssessmentResult)" where
  "submit_assessment uuid_in commit_rows db assessment_data current_user new_id now =
     (let data = (case current_user of
                    None \<Rightarrow> assessment_data
                  | Some uid \<Rightarrow> assessment_data\<lparr>ac_user_id := Some (uuid_str uid)\<rparr>)
      in case create_assessment uuid_in commit_rows db data new_id now of
           (db1, Inl e) \<Rightarrow> (db1, Inl (HTTPException 500))
         | (db1, Inr assessment) \<Rightarrow>
             (case get_club_recommendations db1 (model_dump (ac_responses data)) 10 of
                Inl e \<Rightarrow> (db1, Inl (HTTPException 500))
              | Inr recs \<Rightarrow>
                  (db1, Inr \<lparr>ar_assessment_id = uuid_str (a_id assessment),
                             ar_recommendations = recs,
                             ar_created_at = a_created_at assessment\<rparr>)))"

text \<open>
  \<^verbatim>\<open>get_assessment\<close>: \<open>assessment_recommendations\<close> is the relationship
  \<^verbatim>\<open>assessment.recommendations\<close>, the rows that reference the assessment, in table order;
  \<open>reconstruct\<close> is the body of the loop over them.
\<close>

definition assessment_recommendations :: "database \<Rightarrow> Assessment \<Rightarrow> Recommendation list" where
  "assessment_recommendations db assessment =
     filter (\<lambda>r. r_assessment_id r = a_id assessment) (tbl_recommendations db)"

definition reconstruct :: "database \<Rightarrow> Recommendation \<Rightarrow> ClubRecommendation" where
  "reconstruct db rec =
     (let club_data =
            (case get_club_by_slug db (r_club_id rec) of
               Some db_club \<Rightarrow>
                 [(''id'', uuid_str (c_id db_club)),
                  (''name'', c_name db_club),
                  (''slug'', c_slug db_club),
                  (''tagline'', or_else (c_tagline db_club) []),
                  (''logo_url'', or_else (c_logo_url db_club) [])]
             | None \<Rightarrow>
                 [(''id'', r_club_id rec),
                  (''name'', title (str_replace ''-'' '' '' (r_club_id rec))),
                  (''slug'', r_club_id rec),
                  (''tagline'', ''Club information unavailable''),
                  (''logo_url'', [])])
      in \<lparr>cr_club = club_data, cr_score = r_score rec, cr_rank = r_rank rec,
          cr_reasoning = (case r_reasoning rec of None \<Rightarrow> [] | Some items \<Rightarrow> items)\<rparr>)"

definition get_assessment :: "database \<Rightarrow> string \<Rightarrow> exn + AssessmentResult" where
  "get_assessment db aid =
     (case get_assessment_by_id db aid of
        Inl e \<Rightarrow> Inl e
      | Inr None \<Rightarrow> Inl (HTTPException 404)
      | Inr (Some assessment) \<Rightarrow>
          Inr \<lparr>ar_assessment_id = uuid_str (a_id assessment),
               ar_recommendations =
                 map (reconstruct db)
                   (sort_key r_rank (assessment_recommendations db assessment)),
               ar_created_at = a_created_at assessment\<rparr>)"

subsection \<open>Reference definitions for the recommendation claims\<close>

text \<open>
  \<open>has_rules\<close> is the test \<^verbatim>\<open>db_club.slug in CLUB_SCORING_RULES\<close>;
  \<open>scored_entry\<close> is the entry that the loop appends for such a club, with the score and
  the reasoning in closed form; \<open>ranked\<close> builds the \<^verbatim>\<open>ClubRecommendation\<close> of a
  position and an entry.
\<close>

definition has_rules :: "Club \<Rightarrow> bool" where
  "has_rules c = (map_of CLUB_SCORING_RULES (c_slug c) \<noteq> None)"

definition scored_entry :: "(string \<times> string) list \<Rightarrow> Club \<Rightarrow> ScoredClub" where
  "scored_entry resp c =
     \<lparr>sc_club =
        [(''id'', uuid_str (c_id c)),
         (''name'', c_name c),
         (''slug'', c_slug c),
         (''tagline'', or_else (c_tagline c) []),
         (''logo_url'', or_else (c_logo_url c) (''/images/clubs/'' @ c_slug c @ ''.jpg''))],
      sc_score = (\<Sum>(q, a)\<leftarrow>resp. if q = ''time'' then 0 else spec_weight (c_slug c) q a),
      sc_reasoning =
        map (\<lambda>(q, a). item_for q a (spec_weight (c_slug c) q a))
          (filter (\<lambda>(q, a). q \<noteq> ''time'' \<and> 0 < spec_weight (c_slug c) q a) resp)\<rparr>"

definition ranked :: "int \<times> ScoredClub \<Rightarrow> ClubRecommendation" where
  "ranked = (\<lambda>(position, item).
      \<lparr>cr_club = sc_club item, cr_score = sc_score item,
       cr_rank = position, cr_reasoning = sc_reasoning item\<rparr>)"

subsection \<open>A small directory for the examples\<close>

text \<open>
  Four clubs: two active ones with scoring rules, an active one without (\<open>chess\<close>) and
  an inactive one with rules (\<open>nss\<close>); one registered user; no assessment yet.
  \<open>rank_and_score\<close> projects a result to its ranks and scores.
\<close>

definition example_responses :: "(string \<times> string) list" where
  "example_responses =
     model_dump \<lparr>enjoy = ''coding'', time = ''high'', domain = ''ai'', impact = ''tech'',
                 past = ''coding''\<rparr>"

definition example_db :: database where
  "example_db =
     \<lparr>tbl_users = [7],
      tbl_clubs =
        [\<lparr>c_id = 1, c_name = ''ACM'', c_slug = ''acm'', c_tagline = Some ''Computing'',
           c_logo_url = None, c_is_active = True\<rparr>,
         \<lparr>c_id = 2, c_name = ''Chess Club'', c_slug = ''chess'', c_tagline = None,
           c_logo_url = None, c_is_active = True\<rparr>,
         \<lparr>c_id = 3, c_name = ''Team CodeLocked'', c_slug = ''teamcodelocked'',
           c_tagline = None, c_logo_url = Some ''/tcl.png'', c_is_active = True\<rparr>,
         \<lparr>c_id = 4, c_name = ''NSS'', c_slug = ''nss'', c_tagline = None,
           c_logo_url = None, c_is_active = False\<rparr>],
      tbl_assessments = [],
      tbl_recommendations = []\<rparr>"

definition rank_and_score :: "exn + ClubRecommendation list \<Rightarrow> exn + (int \<times> int) list" where
  "rank_and_score res = map_sum id (map (\<lambda>r. (cr_rank r, cr_score r))) res"

subsection \<open>Reference definitions for the persistence claims\<close>

text \<open>
  \<open>stored_row\<close> is the \<^verbatim>\<open>Recommendation\<close> row that \<^verbatim>\<open>create_assessment\<close> stores for
  a recommendation; \<open>effective_owner\<close> is the owner reference after the endpoint has
  overridden it with the authenticated user.
\<close>

definition stored_row :: "uuid \<Rightarrow> ClubRecommendation \<Rightarrow> Recommendation" where
  "stored_row aid r =
     \<lparr>r_assessment_id = aid,
      r_club_id = dict_get (cr_club r) ''slug'' [],
      r_score = cr_score r,
      r_rank = cr_rank r,
      r_reasoning = Some (cr_reasoning r)\<rparr>"

definition effective_owner :: "AssessmentCreate \<Rightarrow> uuid option \<Rightarrow> string option" where
  "effective_owner assessment_data current_user =
     (case current_user of None \<Rightarrow> ac_user_id assessment_data | Some uid \<Rightarrow> Some (uuid_str uid))"

text \<open>
  \<open>hex_chars\<close> are the digits that \<^const>\<open>uuid_str\<close> writes, and a \<open>hex_string\<close> is made
  of them only.
\<close>

definition hex_chars :: string where
  "hex_chars = ''0123456789abcdef''"

definition hex_string :: "string \<Rightarrow> bool" where
  "hex_string s = list_all (\<lambda>c. c \<in> set hex_chars) s"


definition example_uuid_in :: "string \<Rightarrow> uuid option" where
  "example_uuid_in text =
     (if text = ''00000000-0000-0000-0000-000000000007''
         \<or> text = ''00000000000000000000000000000007''
      then Some 7 else None)"

definition example_commit_rows :: "Recommendation list \<Rightarrow> exn option" where
  "example_commit_rows rows = None"

definition example_data :: AssessmentCreate where
  "example_data =
     \<lparr>ac_responses = \<lparr>enjoy = ''coding'', time = ''high'', domain = ''ai'', impact = ''tech'',
                        past = ''coding''\<rparr>,
      ac_user_id = None\<rparr>"


definition slugs_of :: "exn + ClubRecommendation list \<Rightarrow> exn + string option list" where
  "slugs_of res = map_sum id (map (\<lambda>r. map_of (cr_club r) ''slug'')) res"

subsection \<open>Reference definitions for the reconstruction claims\<close>

text \<open>
  \<open>references_ok\<close> is the foreign key of \<^verbatim>\<open>recommendations.assessment_id\<close>: every
  recommendation row references a stored assessment. \<open>rec_core\<close> is what a recommendation
  says apart from the display fields of its club: the slug, the score, the rank and the
  reasoning; \<open>result_core\<close> projects the outcome of an endpoint to the assessment id and
  these.
\<close>

definition references_ok :: "database \<Rightarrow> bool" where
  "references_ok db =
     list_all (\<lambda>row. r_assessment_id row \<in> set (map a_id (tbl_assessments db)))
       (tbl_recommendations db)"

definition rec_core :: "ClubRecommendation \<Rightarrow> string option \<times> int \<times> int \<times> ReasoningItem list" where
  "rec_core r = (map_of (cr_club r) ''slug'', cr_score r, cr_rank r, cr_reasoning r)"

definition result_core ::
    "exn + AssessmentResult
      \<Rightarrow> exn + (string \<times> (string option \<times> int \<times> int \<times> ReasoningItem list) list)" where
  "result_core out =
     map_sum id (\<lambda>res. (ar_assessment_id res, map rec_core (ar_recommendations res))) out"

text \<open>
  A database with two stored assessments: one without recommendations and one with two,
  stored out of rank order, of which the club \<open>ieee-sb\<close> is no longer in the directory.
\<close>

definition example_db_stored :: database where
  "example_db_stored =
     \<lparr>tbl_users = [7],
      tbl_clubs =
        [\<lparr>c_id = 1, c_name = ''ACM Student Chapter'', c_slug = ''acm'',
           c_tagline = Some ''Computing'', c_logo_url = None, c_is_active = True\<rparr>],
      tbl_assessments =
        [\<lparr>a_id = 9, a_user_id = None, a_responses = example_responses, a_created_at = 1000\<rparr>,
         \<lparr>a_id = 10, a_user_id = None, a_responses = example_responses, a_created_at = 2000\<rparr>],
      tbl_recommendations =
        [\<lparr>r_assessment_id = 10, r_club_id = ''ieee-sb'', r_score = 11, r_rank = 2,
           r_reasoning = None\<rparr>,
         \<lparr>r_assessment_id = 10, r_club_id = ''acm'', r_score = 14, r_rank = 1,
           r_reasoning = Some [item_for ''enjoy'' ''coding'' 4]\<rparr>]\<rparr>"

section \<open>Properties\<close>

subsection \<open>The scoring loop in closed form\<close>

lemma score_loop_closed_form:
  assumes "texts_cover rules"
  shows "score_loop rules responses t r =
     Inr (t + (\<Sum>(q, a)\<leftarrow>responses. if q = ''time'' then 0 else rule_weight rules q a),
          r @ map (\<lambda>(q, a). item_for q a (rule_weight rules q a))
                (filter (\<lambda>(q, a). q \<noteq> ''time'' \<and> rule_weight rules q a > 0) responses))"
proof (induction responses arbitrary: t r)
  case Nil
  show ?case by simp
next
  case (Cons qa rest)
  obtain q a where qa: "qa = (q, a)" by (cases qa)
  show ?case
  proof (cases "q = ''time''")
    case True
    then show ?thesis using Cons.IH qa by simp
  next
    case notime: False
    show ?thesis
    proof (cases "map_of rules q")
      case None
      then show ?thesis using Cons.IH qa notime by (simp add: rule_weight_def)
    next
      case (Some answers)
      from assms Some obtain qt ats where
        qt: "map_of QUESTION_TEXT q = Some qt" and ats: "map_of ANSWER_TEXT q = Some ats"
        by (auto simp: texts_cover_def)
      show ?thesis
      proof (cases "map_of answers a")
        case None
        then show ?thesis using Cons.IH qa notime Some by (simp add: rule_weight_def)
      next
        case (Some w)
        then show ?thesis
          using Cons.IH qa notime \<open>map_of rules q = Some answers\<close> qt ats
          by (simp add: rule_weight_def subscript_def item_for_def dict_get_def)
      qed
    qed
  qed
qed

lemma table_keys:
  "list_all (\<lambda>(c, r). map fst r = [''enjoy'', ''domain'', ''impact'', ''past''])
     CLUB_SCORING_RULES"
  by code_simp

lemma texts_cover_four:
  assumes "map fst rules = [''enjoy'', ''domain'', ''impact'', ''past'']"
  shows "texts_cover rules"
proof -
  have "q \<in> {''enjoy'', ''domain'', ''impact'', ''past''}" if "map_of rules q \<noteq> None" for q
  proof -
    from that have "q \<in> fst ` set rules" by (auto dest: map_of_SomeD intro: rev_image_eqI)
    also have "fst ` set rules = set (map fst rules)" by simp
    finally show ?thesis unfolding assms by simp
  qed
  moreover have "map_of QUESTION_TEXT q \<noteq> None \<and> map_of ANSWER_TEXT q \<noteq> None"
    if "q \<in> {''enjoy'', ''domain'', ''impact'', ''past''}" for q
    using that by (auto simp: QUESTION_TEXT_def ANSWER_TEXT_def)
  ultimately show ?thesis unfolding texts_cover_def by blast
qed

lemma texts_cover_table: "texts_cover (dict_get CLUB_SCORING_RULES club [])"
proof (cases "map_of CLUB_SCORING_RULES club")
  case None
  then show ?thesis by (simp add: dict_get_def texts_cover_def)
next
  case (Some r)
  then have "(club, r) \<in> set CLUB_SCORING_RULES" by (rule map_of_SomeD)
  with table_keys have "map fst r = [''enjoy'', ''domain'', ''impact'', ''past'']"
    by (auto simp: list_all_iff)
  then show ?thesis using Some by (simp add: dict_get_def texts_cover_four)
qed

lemma rule_weight_table: "rule_weight (dict_get CLUB_SCORING_RULES club []) = spec_weight club"
  by (intro ext) (simp add: rule_weight_def spec_weight_def dict_get_def split: option.splits)

lemma calculate_club_score_closed_form:
  "calculate_club_score club responses =
     Inr ((\<Sum>(q, a)\<leftarrow>responses. if q = ''time'' then 0 else spec_weight club q a),
          map (\<lambda>(q, a). item_for q a (spec_weight club q a))
            (filter (\<lambda>(q, a). q \<noteq> ''time'' \<and> spec_weight club q a > 0) responses))"
  unfolding calculate_club_score_def score_loop_closed_form [OF texts_cover_table]
    rule_weight_table
  by simp

lemma spec_weight_absent: "\<not> rule_has club q a \<Longrightarrow> spec_weight club q a = 0"
  by (simp add: rule_has_def spec_weight_def dict_get_def split: option.splits)

lemma sum_list_all_zero:
  "(\<And>x. x \<in> set xs \<Longrightarrow> f x = (0::int)) \<Longrightarrow> sum_list (map f xs) = 0"
  by (induction xs) auto

lemma score_all_absent:
  assumes "\<forall>(q, a) \<in> set responses. \<not> rule_has club q a"
  shows "calculate_club_score club responses = Inr (0, [])"
proof -
  have w: "spec_weight club q a = 0" if "(q, a) \<in> set responses" for q a
    using assms that by (auto intro: spec_weight_absent)
  have "(\<Sum>(q, a)\<leftarrow>responses. if q = ''time'' then 0 else spec_weight club q a) = 0"
    by (rule sum_list_all_zero) (auto simp: w)
  moreover have "filter (\<lambda>(q, a). q \<noteq> ''time'' \<and> spec_weight club q a > 0) responses = []"
    by (auto simp: filter_empty_conv w)
  ultimately show ?thesis by (simp add: calculate_club_score_closed_form)
qed

lemma rule_has_unknown_club: "map_of CLUB_SCORING_RULES club = None \<Longrightarrow> \<not> rule_has club q a"
  by (simp add: rule_has_def dict_get_def)

subsection \<open>The total score\<close>

text \<open>
  Claim C1. For every club identifier and every response map, \<^const>\<open>calculate_club_score\<close>
  returns without raising, and its total is the sum, over the entries of the response map
  other than \<open>time\<close>, of the scoring-table weight of (club, question, answer), where a
  club, question or answer token that the table does not have counts as zero. When no entry
  of the response map is in the club's rule, and in particular when the club is unknown, the
  result is the total 0 with an empty reasoning list. For the responses enjoy: coding,
  domain: ai, impact: tech, past: coding, time: high and a club whose weights for these are
  4, 3, 4 and 3, the total is 14.
\<close>

theorem calculate_club_score_total:
  "(\<exists>reasoning. calculate_club_score club responses =
       Inr ((\<Sum>(q, a)\<leftarrow>responses. if q = ''time'' then 0 else spec_weight club q a),
            reasoning))
   \<and> ((\<forall>(q, a) \<in> set responses. \<not> rule_has club q a) \<longrightarrow>
        calculate_club_score club responses = Inr (0, []))
   \<and> (map_of CLUB_SCORING_RULES club = None \<longrightarrow>
        calculate_club_score club responses = Inr (0, []))
   \<and> (spec_weight club ''enjoy'' ''coding'' = 4 \<and> spec_weight club ''domain'' ''ai'' = 3 \<and>
      spec_weight club ''impact'' ''tech'' = 4 \<and> spec_weight club ''past'' ''coding'' = 3 \<longrightarrow>
        (\<exists>reasoning. calculate_club_score club
           [(''enjoy'', ''coding''), (''domain'', ''ai''), (''impact'', ''tech''),
            (''past'', ''coding''), (''time'', ''high'')] = Inr (14, reasoning)))"
proof (intro conjI impI)
  show "\<exists>reasoning. calculate_club_score club responses =
       Inr ((\<Sum>(q, a)\<leftarrow>responses. if q = ''time'' then 0 else spec_weight club q a),
            reasoning)"
    by (simp add: calculate_club_score_closed_form)
next
  assume "\<forall>(q, a) \<in> set responses. \<not> rule_has club q a"
  then show "calculate_club_score club responses = Inr (0, [])"
    by (rule score_all_absent)
next
  assume "map_of CLUB_SCORING_RULES club = None"
  then have "\<forall>(q, a) \<in> set responses. \<not> rule_has club q a"
    by (auto dest: rule_has_unknown_club)
  then show "calculate_club_score club responses = Inr (0, [])"
    by (rule score_all_absent)
next
  assume "spec_weight club ''enjoy'' ''coding'' = 4 \<and> spec_weight club ''domain'' ''ai'' = 3 \<and>
      spec_weight club ''impact'' ''tech'' = 4 \<and> spec_weight club ''past'' ''coding'' = 3"
  then show "\<exists>reasoning. calculate_club_score club
           [(''enjoy'', ''coding''), (''domain'', ''ai''), (''impact'', ''tech''),
            (''past'', ''coding''), (''time'', ''high'')] = Inr (14, reasoning)"
    by (simp add: calculate_club_score_closed_form)
qed

theorem calculate_club_score_total_witness:
  "map_of CLUB_SCORING_RULES ''chess'' = None
   \<and> \<not> rule_has ''chess'' ''enjoy'' ''coding'' \<and> \<not> rule_has ''chess'' ''time'' ''high''
   \<and> calculate_club_score ''chess'' [(''enjoy'', ''coding''), (''time'', ''high'')] = Inr (0, [])
   \<and> spec_weight ''acm'' ''enjoy'' ''coding'' = 4 \<and> spec_weight ''acm'' ''domain'' ''ai'' = 3
   \<and> spec_weight ''acm'' ''impact'' ''tech'' = 4 \<and> spec_weight ''acm'' ''past'' ''coding'' = 3
   \<and> (\<exists>reasoning. calculate_club_score ''acm''
           [(''enjoy'', ''coding''), (''domain'', ''ai''), (''impact'', ''tech''),
            (''past'', ''coding''), (''time'', ''high'')] = Inr (14, reasoning))"
proof -
  have h1: "map_of CLUB_SCORING_RULES ''chess'' = None" by code_simp
  have h2: "\<not> rule_has ''chess'' ''enjoy'' ''coding'' \<and> \<not> rule_has ''chess'' ''time'' ''high''"
    by code_simp
  have h3: "spec_weight ''acm'' ''enjoy'' ''coding'' = 4 \<and> spec_weight ''acm'' ''domain'' ''ai'' = 3 \<and>
      spec_weight ''acm'' ''impact'' ''tech'' = 4 \<and> spec_weight ''acm'' ''past'' ''coding'' = 3"
    by code_simp
  have c1: "calculate_club_score ''chess'' [(''enjoy'', ''coding''), (''time'', ''high'')] = Inr (0, [])"
    using calculate_club_score_total [of "''chess''" "[(''enjoy'', ''coding''), (''time'', ''high'')]"] h2
    by simp
  have c2: "\<exists>reasoning. calculate_club_score ''acm''
           [(''enjoy'', ''coding''), (''domain'', ''ai''), (''impact'', ''tech''),
            (''past'', ''coding''), (''time'', ''high'')] = Inr (14, reasoning)"
    using calculate_club_score_total [of "''acm''" "[]"] h3 by blast
  from h1 h2 h3 c1 c2 show ?thesis by blast
qed

subsection \<open>The \<open>time\<close> answer\<close>

text \<open>
  Claim C3. Two response maps that differ only in their \<open>time\<close> entry, that is, that have
  the same entries in the same order once the \<open>time\<close> entry is left out, get the same
  total and the same reasoning list from \<^const>\<open>calculate_club_score\<close>, for every club.
\<close>

theorem time_answer_irrelevant:
  assumes "filter (\<lambda>(q, a). q \<noteq> ''time'') r1 = filter (\<lambda>(q, a). q \<noteq> ''time'') r2"
  shows "calculate_club_score club r1 = calculate_club_score club r2"
proof -
  let ?w = "\<lambda>(q, a). if q = ''time'' then 0 else spec_weight club q a"
  let ?nt = "\<lambda>(q, a). q \<noteq> ''time''"
  let ?p = "\<lambda>(q, a). q \<noteq> ''time'' \<and> spec_weight club q a > 0"
  have total: "sum_list (map ?w r) = sum_list (map ?w (filter ?nt r))" for r :: "(string \<times> string) list"
    by (induction r) auto
  have reas: "filter ?p r = filter (\<lambda>(q, a). spec_weight club q a > 0) (filter ?nt r)"
    for r :: "(string \<times> string) list"
    by (induction r) auto
  have "sum_list (map ?w r1) = sum_list (map ?w r2)"
    using total [of r1] total [of r2] assms by simp
  moreover have "filter ?p r1 = filter ?p r2"
    using reas [of r1] reas [of r2] assms by simp
  ultimately show ?thesis
    by (simp add: calculate_club_score_closed_form)
qed

theorem time_answer_irrelevant_witness:
  "filter (\<lambda>(q, a). q \<noteq> ''time'')
      [(''enjoy'', ''coding''), (''time'', ''high''), (''domain'', ''ai'')]
   = filter (\<lambda>(q, a). q \<noteq> ''time'')
      [(''enjoy'', ''coding''), (''time'', ''low''), (''domain'', ''ai'')]
   \<and> calculate_club_score ''acm'' [(''enjoy'', ''coding''), (''time'', ''high''), (''domain'', ''ai'')]
     = calculate_club_score ''acm'' [(''enjoy'', ''coding''), (''time'', ''low''), (''domain'', ''ai'')]"
proof -
  have h: "filter (\<lambda>(q, a). q \<noteq> ''time'')
      [(''enjoy'', ''coding''), (''time'', ''high''), (''domain'', ''ai'')]
   = filter (\<lambda>(q, a). q \<noteq> ''time'')
      [(''enjoy'', ''coding''), (''time'', ''low''), (''domain'', ''ai'')]"
    by simp
  from h time_answer_irrelevant [OF h, of "''acm''"] show ?thesis by blast
qed

subsection \<open>The reasoning list\<close>

text \<open>
  Claim C4, as stated, fails on the order of the entries: the loop iterates over
  \<^verbatim>\<open>responses.items()\<close>, so a response map that holds \<open>past\<close> before \<open>enjoy\<close>
  gets its reasoning in that order, which is not the order in which the questions are
  presented.
\<close>

theorem reasoning_order_counterexample:
  "calculate_club_score ''acm'' [(''past'', ''coding''), (''enjoy'', ''coding'')] =
     Inr (7, [\<lparr>question = ''Past experience?'', answer = ''Coding competitions'', contribution = 3\<rparr>,
              \<lparr>question = ''What do you enjoy most?'', answer = ''Coding / problem solving'',
               contribution = 4\<rparr>])
   \<and> \<not> in_question_order
       [\<lparr>question = ''Past experience?'', answer = ''Coding competitions'', contribution = 3\<rparr>,
        \<lparr>question = ''What do you enjoy most?'', answer = ''Coding / problem solving'',
         contribution = 4\<rparr>]"
  by code_simp

lemma question_texts_of_dump:
  "map (\<lambda>(q, a). dict_get QUESTION_TEXT q []) (model_dump r) = map snd QUESTION_TEXT"
  by (simp add: model_dump_def QUESTION_TEXT_def dict_get_def)

lemma in_question_order_dump:
  "in_question_order
     (map (\<lambda>(q, a). item_for q a (w q a)) (filter P (model_dump r)))"
proof -
  have "map question (map (\<lambda>(q, a). item_for q a (w q a)) (filter P (model_dump r)))
      = map (\<lambda>(q, a). dict_get QUESTION_TEXT q []) (filter P (model_dump r))"
    by (simp add: item_for_def case_prod_unfold)
  moreover have "subseq (map (\<lambda>(q, a). dict_get QUESTION_TEXT q []) (filter P (model_dump r)))
      (map (\<lambda>(q, a). dict_get QUESTION_TEXT q []) (model_dump r))"
    by (intro subseq_map subseq_filter_left)
  ultimately show ?thesis
    unfolding in_question_order_def by (simp only: question_texts_of_dump)
qed

text \<open>
  Claim C4, amended. For every club identifier and every response map,
  \<^const>\<open>calculate_club_score\<close> returns a reasoning list that holds exactly the entries of
  the response map, other than \<open>time\<close>, whose table weight is strictly positive; each
  entry carries that weight as its contribution; zero weights are left out of the reasoning
  and counted in the total; and the entries appear in the iteration order of the response
  map. For a response map dumped from the schema \<^verbatim>\<open>AssessmentResponses\<close> this is the
  order in which the questions are presented.
\<close>

theorem reasoning_follows_response_order:
  "\<exists>total items.
      calculate_club_score club resp = Inr (total, items)
    \<and> items = map (\<lambda>(q, a). item_for q a (spec_weight club q a))
                (filter (\<lambda>(q, a). q \<noteq> ''time'' \<and> 0 < spec_weight club q a) resp)
    \<and> (\<forall>i \<in> set items. 0 < contribution i)
    \<and> total = (\<Sum>(q, a)\<leftarrow>resp. if q = ''time'' then 0 else spec_weight club q a)
    \<and> (\<exists>total' items'. calculate_club_score club (model_dump r) = Inr (total', items')
          \<and> in_question_order items')"
proof -
  let ?items = "map (\<lambda>(q, a). item_for q a (spec_weight club q a))
                (filter (\<lambda>(q, a). q \<noteq> ''time'' \<and> 0 < spec_weight club q a) resp)"
  have pos: "\<forall>i \<in> set ?items. 0 < contribution i"
    by (auto simp: item_for_def)
  have dump: "\<exists>total' items'. calculate_club_score club (model_dump r) = Inr (total', items')
          \<and> in_question_order items'"
    unfolding calculate_club_score_closed_form
    using in_question_order_dump by blast
  show ?thesis
    unfolding calculate_club_score_closed_form using pos dump
    unfolding calculate_club_score_closed_form by blast
qed

theorem reasoning_follows_response_order_witness:
  "calculate_club_score ''nss'' [(''past'', ''none''), (''time'', ''low''), (''enjoy'', ''coding''), (''impact'', ''social'')]
     = Inr (8, [item_for ''past'' ''none'' 3, item_for ''impact'' ''social'' 5])
   \<and> 0 < contribution (item_for ''past'' ''none'' 3) \<and> 0 < contribution (item_for ''impact'' ''social'' 5)"
proof -
  let ?resp = "[(''past'', ''none''), (''time'', ''low''), (''enjoy'', ''coding''), (''impact'', ''social'')]"
  obtain total items where
    r: "calculate_club_score ''nss'' ?resp = Inr (total, items)" and
    i: "items = map (\<lambda>(q, a). item_for q a (spec_weight ''nss'' q a))
                (filter (\<lambda>(q, a). q \<noteq> ''time'' \<and> 0 < spec_weight ''nss'' q a) ?resp)" and
    p: "\<forall>i \<in> set items. 0 < contribution i" and
    t: "total = (\<Sum>(q, a)\<leftarrow>?resp. if q = ''time'' then 0 else spec_weight ''nss'' q a)"
    using reasoning_follows_response_order [of "''nss''" ?resp] by blast
  have w: "spec_weight ''nss'' ''past'' ''none'' = 3" "spec_weight ''nss'' ''enjoy'' ''coding'' = 0"
     "spec_weight ''nss'' ''impact'' ''social'' = 5"
    by code_simp+
  have "items = [item_for ''past'' ''none'' 3, item_for ''impact'' ''social'' 5]"
    unfolding i by (simp add: w)
  moreover have "total = 8" unfolding t by (simp add: w)
  ultimately show ?thesis using r p by simp
qed

subsection \<open>Recommendations in closed form\<close>

lemma score_clubs_closed_form:
  "score_clubs cs resp = Inr (map (scored_entry resp) (filter has_rules cs))"
  by (induction cs) (simp_all add: has_rules_def scored_entry_def calculate_club_score_closed_form)

lemma slice_to_Nil [simp]: "slice_to [] n = []"
  by (simp add: slice_to_def)

lemma get_club_recommendations_closed_form:
  "get_club_recommendations db resp top_n =
     Inr (map ranked
            (py_enumerate 1
               (slice_to
                  (sort_reverse sc_score
                     (map (scored_entry resp)
                        (filter has_rules (filter c_is_active (tbl_clubs db)))))
                  top_n)))"
proof (cases "filter c_is_active (tbl_clubs db) = []")
  case True
  then show ?thesis
    by (simp add: get_club_recommendations_def sort_reverse_def)
next
  case False
  then show ?thesis
    by (simp add: get_club_recommendations_def score_clubs_closed_form sort_reverse_def
        ranked_def Let_def del: filter_filter)
qed

lemma map_fst_py_enumerate: "map fst (py_enumerate s xs) = [s..s + int (length xs) - 1]"
proof (induction xs arbitrary: s)
  case Nil
  show ?case by simp
next
  case (Cons x xs)
  have "[s..s + int (length (x # xs)) - 1] = s # [s + 1..s + 1 + int (length xs) - 1]"
    by (subst upto_rec1) (simp_all add: algebra_simps)
  then show ?case using Cons.IH [of "s + 1"] by simp
qed

lemma map_snd_py_enumerate: "map snd (py_enumerate s xs) = xs"
  by (induction xs arbitrary: s) simp_all

lemma length_py_enumerate: "length (py_enumerate s xs) = length xs"
  by (induction xs arbitrary: s) simp_all

lemma cr_rank_ranked: "map cr_rank (map ranked ps) = map fst ps"
  by (simp add: ranked_def case_prod_unfold)

lemma cr_score_ranked: "map cr_score (map ranked ps) = map sc_score (map snd ps)"
  by (simp add: ranked_def case_prod_unfold)

lemma cr_club_ranked: "map cr_club (map ranked ps) = map sc_club (map snd ps)"
  by (simp add: ranked_def case_prod_unfold)

lemma slice_to_take: "\<exists>k. slice_to xs n = take k xs"
  by (auto simp: slice_to_def)

lemma length_slice_to: "0 \<le> n \<Longrightarrow> int (length (slice_to xs n)) \<le> n"
  by (simp add: slice_to_def)

lemma set_slice_to: "set (slice_to xs n) \<subseteq> set xs"
  using slice_to_take [of xs n] by (auto dest: in_set_takeD)

lemma sorted_desc_sort_reverse:
  "sorted_wrt (\<lambda>a b. b \<le> a) (map key (sort_reverse key xs))"
proof -
  have "sorted (map key (sort_key key (rev xs)))" by simp
  then have "sorted (rev (map key (sort_reverse key xs)))"
    by (simp add: sort_reverse_def rev_map)
  then show ?thesis
    by (simp add: sorted_wrt_rev)
qed

lemma set_sort_reverse: "set (sort_reverse key xs) = set xs"
  by (simp add: sort_reverse_def)

lemma sorted_desc_slice:
  "sorted_wrt (\<lambda>a b. b \<le> a) (map key xs) \<Longrightarrow> sorted_wrt (\<lambda>a b. b \<le> a) (map key (slice_to xs n))"
proof -
  assume s: "sorted_wrt (\<lambda>a b. b \<le> a) (map key xs)"
  obtain k where k: "slice_to xs n = take k xs" using slice_to_take by blast
  have "sorted_wrt (\<lambda>a b. b \<le> a) (take k (map key xs))" using s by (rule sorted_wrt_take)
  then show ?thesis by (simp add: k take_map)
qed

subsection \<open>Ranks, order and the cap\<close>

text \<open>
  Claim C2, as stated, fails for a negative \<open>top_n\<close>: the slice
  \<^verbatim>\<open>scored_clubs[:top_n]\<close> then drops entries from the end only, and with two eligible
  clubs and \<open>top_n = -1\<close> one entry is returned, which is more than \<open>top_n\<close>.
\<close>

theorem top_n_negative_counterexample:
  "rank_and_score (get_club_recommendations example_db example_responses (- 1)) = Inr [(1, 16)]
   \<and> \<not> int (length [(1::int, 16::int)]) \<le> - 1"
  by code_simp

text \<open>
  Claim C2, amended. For every response map, every club directory and every
  \<open>top_n\<close>, \<^const>\<open>get_club_recommendations\<close> returns without raising; when
  \<open>top_n\<close> is not negative it returns at most \<open>top_n\<close> entries; the rank of the i-th
  returned entry is i, so the ranks are exactly 1 to the length of the result; and the
  scores are non-increasing along the result.
\<close>

theorem recommendations_ranked:
  "\<exists>recs. get_club_recommendations db resp top_n = Inr recs
     \<and> (0 \<le> top_n \<longrightarrow> int (length recs) \<le> top_n)
     \<and> map cr_rank recs = [1..int (length recs)]
     \<and> sorted_wrt (\<lambda>a b. b \<le> a) (map cr_score recs)"
proof -
  let ?sorted = "sort_reverse sc_score
      (map (scored_entry resp) (filter has_rules (filter c_is_active (tbl_clubs db))))"
  let ?cut = "slice_to ?sorted top_n"
  let ?recs = "map ranked (py_enumerate 1 ?cut)"
  have r: "get_club_recommendations db resp top_n = Inr ?recs"
    by (rule get_club_recommendations_closed_form)
  have len: "length ?recs = length ?cut" by (simp add: length_py_enumerate)
  have bound: "0 \<le> top_n \<longrightarrow> int (length ?recs) \<le> top_n"
    unfolding len by (auto intro: length_slice_to)
  have ranks: "map cr_rank ?recs = [1..int (length ?recs)]"
    unfolding len cr_rank_ranked map_fst_py_enumerate by simp
  have "sorted_wrt (\<lambda>a b. b \<le> a) (map sc_score ?cut)"
    by (intro sorted_desc_slice sorted_desc_sort_reverse)
  then have sorted: "sorted_wrt (\<lambda>a b. b \<le> a) (map cr_score ?recs)"
    unfolding cr_score_ranked map_snd_py_enumerate .
  from r bound ranks sorted show ?thesis by blast
qed

theorem recommendations_ranked_witness:
  "(0::int) \<le> 1 \<and>
   rank_and_score (get_club_recommendations example_db example_responses 1) = Inr [(1, 16)]
   \<and> int (length [(1::int, 16::int)]) \<le> 1"
proof -
  obtain recs where
    r: "get_club_recommendations example_db example_responses 1 = Inr recs" and
    b: "0 \<le> (1::int) \<longrightarrow> int (length recs) \<le> 1"
    using recommendations_ranked [of example_db example_responses 1] by blast
  have e: "rank_and_score (get_club_recommendations example_db example_responses 1) = Inr [(1, 16)]"
    by code_simp
  from r b e show ?thesis by simp
qed

subsection \<open>Eligibility\<close>

lemma slug_of_scored_entry: "map_of (sc_club (scored_entry resp c)) ''slug'' = Some (c_slug c)"
  by (simp add: scored_entry_def)

lemma recommended_club_origin:
  assumes "get_club_recommendations db resp top_n = Inr recs" and "rec \<in> set recs"
  shows "\<exists>c \<in> set (tbl_clubs db). c_is_active c \<and> has_rules c
           \<and> cr_club rec = sc_club (scored_entry resp c)"
proof -
  let ?cands = "map (scored_entry resp) (filter has_rules (filter c_is_active (tbl_clubs db)))"
  let ?cut = "slice_to (sort_reverse sc_score ?cands) top_n"
  from assms(1) have recs: "recs = map ranked (py_enumerate 1 ?cut)"
    by (simp add: get_club_recommendations_closed_form)
  have "map cr_club recs = map sc_club ?cut"
    unfolding recs cr_club_ranked map_snd_py_enumerate ..
  then have "set (map cr_club recs) = set (map sc_club ?cut)" by simp
  with assms(2) have "cr_club rec \<in> sc_club ` set ?cut" by auto
  then obtain s where s: "s \<in> set ?cut" and c: "cr_club rec = sc_club s" by auto
  from s have "s \<in> set ?cands"
    using set_slice_to [of "sort_reverse sc_score ?cands" top_n]
    by (auto simp: set_sort_reverse)
  then obtain cl where "cl \<in> set (tbl_clubs db)" "c_is_active cl" "has_rules cl"
      "s = scored_entry resp cl"
    by auto
  with c show ?thesis by blast
qed

text \<open>
  Claim C6. For every response map, every club directory and every \<open>top_n\<close>, each entry
  that \<^const>\<open>get_club_recommendations\<close> returns is an active club of the directory
  whose slug has an entry in the scoring table; hence a club whose slug is absent from the
  table never appears in the result, whether or not the directory holds it.
\<close>

theorem unlisted_club_never_recommended:
  "\<exists>recs. get_club_recommendations db resp top_n = Inr recs
     \<and> (\<forall>rec \<in> set recs. \<exists>c \<in> set (tbl_clubs db).
            c_is_active c \<and> map_of CLUB_SCORING_RULES (c_slug c) \<noteq> None
            \<and> map_of (cr_club rec) ''slug'' = Some (c_slug c))
     \<and> (map_of CLUB_SCORING_RULES club_slug = None \<longrightarrow>
            (\<forall>rec \<in> set recs. map_of (cr_club rec) ''slug'' \<noteq> Some club_slug))"
proof -
  obtain recs where r: "get_club_recommendations db resp top_n = Inr recs"
    by (simp add: get_club_recommendations_closed_form)
  have origin: "\<exists>c \<in> set (tbl_clubs db).
            c_is_active c \<and> map_of CLUB_SCORING_RULES (c_slug c) \<noteq> None
            \<and> map_of (cr_club rec) ''slug'' = Some (c_slug c)" if "rec \<in> set recs" for rec
    using recommended_club_origin [OF r that]
    by (auto simp: has_rules_def slug_of_scored_entry)
  have "map_of (cr_club rec) ''slug'' \<noteq> Some club_slug"
    if "map_of CLUB_SCORING_RULES club_slug = None" "rec \<in> set recs" for rec
    using origin [OF that(2)] that(1) by auto
  with r origin show ?thesis by blast
qed

theorem unlisted_club_never_recommended_witness:
  "map_of CLUB_SCORING_RULES ''chess'' = None
   \<and> slugs_of (get_club_recommendations example_db example_responses 10)
       = Inr [Some ''teamcodelocked'', Some ''acm'']
   \<and> Some ''chess'' \<notin> set [Some ''teamcodelocked'', Some ''acm'']"
proof -
  have h: "map_of CLUB_SCORING_RULES ''chess'' = None" by code_simp
  have e: "slugs_of (get_club_recommendations example_db example_responses 10)
       = Inr [Some ''teamcodelocked'', Some ''acm'']"
    by code_simp
  obtain recs where
    r: "get_club_recommendations example_db example_responses 10 = Inr recs" and
    n: "\<forall>rec \<in> set recs. map_of (cr_club rec) ''slug'' \<noteq> Some ''chess''"
    using unlisted_club_never_recommended [of example_db example_responses 10 "''chess''"] h
    by blast
  from e r have "map (\<lambda>r. map_of (cr_club r) ''slug'') recs = [Some ''teamcodelocked'', Some ''acm'']"
    by (simp add: slugs_of_def)
  then have "set [Some ''teamcodelocked'', Some ''acm''] = (\<lambda>r. map_of (cr_club r) ''slug'') ` set recs"
    by (metis set_map)
  with n have "Some ''chess'' \<notin> set [Some ''teamcodelocked'', Some ''acm'']" by auto
  with h e show ?thesis by blast
qed

subsection \<open>No candidates, and the slugs of a result\<close>


lemma those_slugs:
  "(\<And>r. r \<in> set recs \<Longrightarrow> map_of (cr_club r) ''slug'' \<noteq> None) \<Longrightarrow>
   those (map (\<lambda>r. map_of (cr_club r) ''slug'') recs)
     = Some (map (\<lambda>r. dict_get (cr_club r) ''slug'' []) recs)"
proof (induction recs)
  case Nil
  show ?case by simp
next
  case (Cons a recs)
  from Cons.prems [of a] obtain y where y: "map_of (cr_club a) ''slug'' = Some y" by auto
  have "those (map (\<lambda>r. map_of (cr_club r) ''slug'') recs)
     = Some (map (\<lambda>r. dict_get (cr_club r) ''slug'' []) recs)"
    by (rule Cons.IH) (simp add: Cons.prems)
  then show ?case by (simp add: y dict_get_def)
qed

lemma zip_map_self: "map f (zip xs (map g xs)) = map (\<lambda>x. f (x, g x)) xs"
  by (induction xs) simp_all

subsection \<open>Writing and reading a UUID\<close>

lemma hex_digit_table:
  "list_all (\<lambda>d. hex_digit d \<in> set hex_chars \<and> digit_value (hex_digit d) = Some d) [0..<16]"
  by code_simp

lemma hex_digit_props:
  assumes "d < 16"
  shows "hex_digit d \<in> set hex_chars" and "digit_value (hex_digit d) = Some d"
  using hex_digit_table assms by (auto simp: list_all_iff)

lemma hex_chars_table:
  "list_all (\<lambda>c. digit_value c \<noteq> None \<and> \<not> is_space c \<and> c \<noteq> CHR ''+'' \<and> c \<noteq> CHR ''-''
      \<and> c \<noteq> CHR ''_'' \<and> c \<noteq> CHR ''x'' \<and> c \<noteq> CHR ''X'' \<and> c \<noteq> CHR ''u''
      \<and> c \<noteq> CHR ''{'' \<and> c \<noteq> CHR ''}'') hex_chars"
  by code_simp

lemma hex_char_props:
  assumes "c \<in> set hex_chars"
  shows "digit_value c \<noteq> None" "\<not> is_space c" "c \<noteq> CHR ''+''" "c \<noteq> CHR ''-''"
    "c \<noteq> CHR ''_''" "c \<noteq> CHR ''x''" "c \<noteq> CHR ''X''" "c \<noteq> CHR ''u''"
    "c \<noteq> CHR ''{''" "c \<noteq> CHR ''}''"
  using hex_chars_table assms by (auto simp: list_all_iff)

lemma length_to_hex [simp]: "length (to_hex k n) = k"
  by (induction k arbitrary: n) simp_all

lemma hex_string_to_hex: "hex_string (to_hex k n)"
  by (induction k arbitrary: n) (simp_all add: hex_string_def hex_digit_props)

lemma digits_value_append:
  "digits_value acc (xs @ ys) = digits_value (digits_value acc xs) ys"
  by (induction xs arbitrary: acc) (simp_all split: option.splits)

lemma digits_value_to_hex: "digits_value acc (to_hex k n) = acc * 16 ^ k + n mod 16 ^ k"
proof (induction k arbitrary: n acc)
  case 0
  show ?case by simp
next
  case (Suc k)
  have "digits_value acc (to_hex (Suc k) n)
      = 16 * (acc * 16 ^ k + (n div 16) mod 16 ^ k) + n mod 16"
    by (simp add: digits_value_append Suc.IH hex_digit_props)
  also have "\<dots> = acc * 16 ^ Suc k + (16 * ((n div 16) mod 16 ^ k) + n mod 16)"
    by (simp add: algebra_simps)
  also have "16 * ((n div 16) mod 16 ^ k) + n mod 16 = n mod 16 ^ Suc k"
    by (simp add: mod_mult2_eq)
  finally show ?case .
qed

lemma hex_stringD: "hex_string s \<Longrightarrow> c \<in> set s \<Longrightarrow> c \<in> set hex_chars"
  by (simp add: hex_string_def list_all_iff)

lemma underscores_ok_plain:
  "CHR ''_'' \<notin> set s \<Longrightarrow> prev \<noteq> CHR ''_'' \<Longrightarrow> underscores_ok prev s"
proof (induction s arbitrary: prev)
  case Nil
  then show ?case by simp
next
  case (Cons a s)
  from Cons.prems(1) have a: "a \<noteq> CHR ''_''" and s: "CHR ''_'' \<notin> set s"
    by (metis list.set_intros(1), metis list.set_intros(2))
  have "underscores_ok a s" using s a by (rule Cons.IH)
  then show ?case using a by (simp only: underscores_ok.simps) blast
qed

lemma skip_prefix_hex:
  assumes "hex_string s"
  shows "skip_prefix s = s"
proof (cases s)
  case Nil
  then show ?thesis by (simp add: skip_prefix_def)
next
  case (Cons c0 r)
  show ?thesis
  proof (cases r)
    case Nil
    with Cons show ?thesis by (simp add: skip_prefix_def)
  next
    case (Cons c1 r')
    have "c1 \<in> set s" by (simp add: Cons \<open>s = c0 # r\<close>)
    with assms have c1: "c1 \<in> set hex_chars" by (rule hex_stringD)
    have "c1 \<noteq> CHR ''x''" "c1 \<noteq> CHR ''X''"
      using hex_char_props(6) [OF c1] hex_char_props(7) [OF c1] by blast+
    with Cons \<open>s = c0 # r\<close> show ?thesis by (simp add: skip_prefix_def)
  qed
qed

lemma int_base16_hex:
  assumes h: "hex_string s" and ne: "s \<noteq> []"
  shows "int_base16 s = Inr (int (digits_value 0 s))"
proof -
  from ne obtain c r where s: "s = c # r" by (cases s) auto
  then have "c \<in> set s" by simp
  with h have c: "c \<in> set hex_chars" by (rule hex_stringD)
  have all: "is_digit_or_underscore x" if "x \<in> set s" for x
    using hex_char_props(1) [OF hex_stringD [OF h that]]
    by (simp add: is_digit_or_underscore_def)
  have d1: "dropWhile is_space s = s"
    using hex_char_props(2) [OF c] by (simp add: s)
  have sg: "skip_sign s = s"
    using hex_char_props(3,4) [OF c] by (simp add: s skip_sign_def)
  have tw: "takeWhile is_digit_or_underscore s = s"
    using all by (simp add: takeWhile_eq_all_conv)
  have dw: "dropWhile is_digit_or_underscore s = []"
    using all by simp
  have nu: "CHR ''_'' \<notin> set s"
    using hex_char_props(5) [OF hex_stringD [OF h]] by blast
  have uo: "underscores_ok (CHR 0x00) s"
    using nu by (rule underscores_ok_plain) simp
  have hd: "hd s \<noteq> CHR ''_''" using hex_char_props(5) [OF c] by (simp add: s)
  have sign: "(case s of [] \<Rightarrow> 1 | c # _ \<Rightarrow> if c = CHR ''-'' then - 1 else (1::int)) = 1"
    using hex_char_props(4) [OF c] by (simp add: s)
  show ?thesis
    unfolding int_base16_def Let_def d1 sg skip_prefix_hex [OF h] tw dw sign
    using uo hd ne by simp
qed

lemma str_replace_absent:
  "x \<notin> set s \<Longrightarrow> str_replace (x # xs) new s = s"
  by (induction s) auto

lemma str_replace_single:
  "str_replace [d] [] s = filter (\<lambda>c. c \<noteq> d) s"
  by (induction s) auto

lemma str_strip_absent:
  assumes "\<And>c. c \<in> set s \<Longrightarrow> c \<notin> set chars"
  shows "str_strip chars s = s"
proof -
  have keep: "dropWhile (\<lambda>c. c \<in> set chars) t = t" if "set t \<subseteq> set s" for t
  proof (cases t)
    case Nil
    then show ?thesis by simp
  next
    case (Cons a r)
    with that have "a \<in> set s" by simp
    then have "a \<notin> set chars" by (rule assms)
    with Cons show ?thesis by simp
  qed
  have "dropWhile (\<lambda>c. c \<in> set chars) s = s" by (rule keep) simp
  moreover have "dropWhile (\<lambda>c. c \<in> set chars) (rev s) = rev s" by (rule keep) simp
  ultimately show ?thesis by (simp add: str_strip_def)
qed

lemma take_drop_join: "take n (drop m xs) @ drop (m + n) xs = drop m xs"
  by (metis add.commute append_take_drop_id drop_drop)

lemma regroup:
  "take 8 h @ take 4 (drop 8 h) @ take 4 (drop 12 h) @ take 4 (drop 16 h) @ drop 20 h = h"
proof -
  have "take 4 (drop 16 h) @ drop 20 h = drop 16 h"
    using take_drop_join [of 4 16 h] by simp
  moreover have "take 4 (drop 12 h) @ drop 16 h = drop 12 h"
    using take_drop_join [of 4 12 h] by simp
  moreover have "take 4 (drop 8 h) @ drop 12 h = drop 8 h"
    using take_drop_join [of 4 8 h] by simp
  ultimately show ?thesis by simp
qed

lemma hex_string_take: "hex_string s \<Longrightarrow> hex_string (take n s)"
  by (auto simp: hex_string_def list_all_iff dest: in_set_takeD)

lemma hex_string_drop: "hex_string s \<Longrightarrow> hex_string (drop n s)"
  by (auto simp: hex_string_def list_all_iff dest: in_set_dropD)

lemma filter_hex_string:
  assumes "hex_string s"
  shows "filter (\<lambda>c. c \<noteq> CHR ''-'') s = s"
proof -
  have "c \<noteq> CHR ''-''" if "c \<in> set s" for c
    using hex_char_props(4) [OF hex_stringD [OF assms that]] .
  then show ?thesis by (simp add: filter_id_conv)
qed

lemma uuid_str_chars:
  assumes "c \<in> set (uuid_str u)"
  shows "c \<in> set hex_chars \<or> c = CHR ''-''"
proof -
  let ?h = "to_hex 32 (unat u)"
  have h: "hex_string ?h" by (rule hex_string_to_hex)
  from assms have "c \<in> set (take 8 ?h) \<or> c \<in> set (take 4 (drop 8 ?h))
      \<or> c \<in> set (take 4 (drop 12 ?h)) \<or> c \<in> set (take 4 (drop 16 ?h))
      \<or> c \<in> set (drop 20 ?h) \<or> c = CHR ''-''"
    unfolding uuid_str_def Let_def by auto
  then have "c \<in> set ?h \<or> c = CHR ''-''"
    by (auto dest: in_set_takeD in_set_dropD)
  then show ?thesis using hex_stringD [OF h] by blast
qed

lemma filter_uuid_str:
  "filter (\<lambda>c. c \<noteq> CHR ''-'') (uuid_str u) = to_hex 32 (unat u)"
proof -
  let ?h = "to_hex 32 (unat u)"
  have h: "hex_string ?h" by (rule hex_string_to_hex)
  have "filter (\<lambda>c. c \<noteq> CHR ''-'') (uuid_str u)
      = take 8 ?h @ take 4 (drop 8 ?h) @ take 4 (drop 12 ?h) @ take 4 (drop 16 ?h) @ drop 20 ?h"
    unfolding uuid_str_def Let_def
    by (simp add: filter_hex_string hex_string_take hex_string_drop h)
  then show ?thesis by (simp only: regroup)
qed

lemma unat_uuid_bound: "unat (u :: uuid) < 16 ^ 32"
proof -
  have "unat u < 2 ^ 128" using unsigned_less [of u] by simp
  moreover have "(2::nat) ^ 128 = 16 ^ 32" by simp
  ultimately show ?thesis by simp
qed

lemma uuid_roundtrip: "uuid_UUID (uuid_str u) = Inr u"
proof -
  let ?s = "uuid_str u"
  let ?h = "to_hex 32 (unat u)"
  have nou: "CHR ''u'' \<notin> set ?s"
  proof
    assume "CHR ''u'' \<in> set ?s"
    then have "CHR ''u'' \<in> set hex_chars \<or> CHR ''u'' = CHR ''-''" by (rule uuid_str_chars)
    then show False by (simp add: hex_chars_def)
  qed
  have r1: "str_replace ''urn:'' [] ?s = ?s"
    using nou by (simp add: str_replace_absent)
  have r2: "str_replace ''uuid:'' [] ?s = ?s"
    using nou by (simp add: str_replace_absent)
  have nobrace: "c \<notin> set ''{}''" if "c \<in> set ?s" for c
  proof -
    from that have "c \<in> set hex_chars \<or> c = CHR ''-''" by (rule uuid_str_chars)
    then show ?thesis
    proof
      assume c: "c \<in> set hex_chars"
      show ?thesis using hex_char_props(9) [OF c] hex_char_props(10) [OF c] by simp
    next
      assume "c = CHR ''-''"
      then show ?thesis by simp
    qed
  qed
  have r3: "str_strip ''{}'' ?s = ?s"
    using nobrace by (rule str_strip_absent)
  have r4: "str_replace ''-'' [] ?s = ?h"
    by (simp add: str_replace_single filter_uuid_str)
  have hs: "hex_string ?h" by (rule hex_string_to_hex)
  have ne: "?h \<noteq> []"
  proof
    assume "?h = []"
    then have "length ?h = 0" by simp
    then show False by simp
  qed
  have val: "int_base16 ?h = Inr (int (unat u))"
    using int_base16_hex [OF hs ne] unat_uuid_bound [of u]
    by (simp add: digits_value_to_hex)
  have rng: "0 \<le> int (unat u) \<and> int (unat u) < 2 ^ 128"
    using uint_bounded [of u] by simp
  have wb: "(word_of_int (int (unat u)) :: uuid) = u" by simp
  show ?thesis
    unfolding uuid_UUID_def Let_def r1 r2 r3 r4 val
    using rng wb by simp
qed

subsection \<open>Looking an assessment up\<close>

lemma int_base16_error: "int_base16 s = Inl e \<Longrightarrow> e = ValueError"
  by (simp add: int_base16_def Let_def split: if_splits)

lemma uuid_UUID_error: "uuid_UUID s = Inl e \<Longrightarrow> e = ValueError"
  by (auto simp: uuid_UUID_def Let_def split: if_splits sum.splits dest: int_base16_error)

lemma get_assessment_by_id_malformed:
  assumes "uuid_UUID aid = Inl e"
  shows "get_assessment_by_id db aid = Inr None"
proof -
  from assms have "e = ValueError" by (rule uuid_UUID_error)
  with assms show ?thesis by (simp add: get_assessment_by_id_def)
qed

lemma get_assessment_by_id_parsed:
  "uuid_UUID aid = Inr u \<Longrightarrow>
   get_assessment_by_id db aid = Inr (find (\<lambda>a. a_id a = u) (tbl_assessments db))"
  by (simp add: get_assessment_by_id_def)




lemma find_unique:
  assumes "distinct (map f xs)" and "a \<in> set xs"
  shows "find (\<lambda>x. f x = f a) xs = Some a"
  using assms
proof (induction xs)
  case Nil
  then show ?case by simp
next
  case (Cons x xs)
  show ?case
  proof (cases "x = a")
    case True
    then show ?thesis by simp
  next
    case False
    with Cons.prems have a: "a \<in> set xs" by simp
    with Cons.prems have "f x \<noteq> f a" by auto
    moreover have "find (\<lambda>x. f x = f a) xs = Some a"
      using Cons.prems a by (intro Cons.IH) simp_all
    ultimately show ?thesis by simp
  qed
qed

lemma get_assessment_by_id_stored:
  assumes "a \<in> set (tbl_assessments db)" and "distinct (map a_id (tbl_assessments db))"
  shows "get_assessment_by_id db (uuid_str (a_id a)) = Inr (Some a)"
  using find_unique [OF assms(2,1)]
  by (simp add: get_assessment_by_id_parsed [OF uuid_roundtrip])

lemma get_assessment_found:
  "get_assessment_by_id db aid = Inr (Some a) \<Longrightarrow>
   get_assessment db aid =
     Inr \<lparr>ar_assessment_id = uuid_str (a_id a),
          ar_recommendations =
            map (reconstruct db) (sort_key r_rank (assessment_recommendations db a)),
          ar_created_at = a_created_at a\<rparr>"
  by (simp add: get_assessment_def)

text \<open>
  Claim C8. An assessment id that resolves to no stored assessment (no stored row has the
  identifier it parses to, or it does not parse) is answered with the status 404; an id that
  resolves to a stored assessment is never answered with an error; and a stored assessment
  without recommendation rows is answered with a result whose recommendation list is empty.
  The second part is stated for the text of the assessment's identifier in a table whose
  identifiers are distinct (the primary key).
\<close>

theorem not_found_distinct_from_empty:
  "((\<forall>a \<in> set (tbl_assessments db). uuid_UUID aid \<noteq> Inr (a_id a)) \<longrightarrow>
        get_assessment db aid = Inl (HTTPException 404))
   \<and> ((\<exists>a \<in> set (tbl_assessments db). uuid_UUID aid = Inr (a_id a)) \<longrightarrow>
        (\<exists>res. get_assessment db aid = Inr res))
   \<and> (a \<in> set (tbl_assessments db) \<and> distinct (map a_id (tbl_assessments db))
        \<and> assessment_recommendations db a = [] \<longrightarrow>
        get_assessment db (uuid_str (a_id a)) =
          Inr \<lparr>ar_assessment_id = uuid_str (a_id a), ar_recommendations = [],
               ar_created_at = a_created_at a\<rparr>)"
proof (intro conjI impI)
  assume none: "\<forall>a \<in> set (tbl_assessments db). uuid_UUID aid \<noteq> Inr (a_id a)"
  have "get_assessment_by_id db aid = Inr None"
  proof (cases "uuid_UUID aid")
    case (Inl e)
    then show ?thesis by (rule get_assessment_by_id_malformed)
  next
    case (Inr u)
    with none have "\<not> (\<exists>a. a \<in> set (tbl_assessments db) \<and> a_id a = u)" by auto
    then have "find (\<lambda>a. a_id a = u) (tbl_assessments db) = None"
      unfolding find_None_iff .
    with Inr show ?thesis by (simp add: get_assessment_by_id_parsed)
  qed
  then show "get_assessment db aid = Inl (HTTPException 404)"
    by (simp add: get_assessment_def)
next
  assume "\<exists>a \<in> set (tbl_assessments db). uuid_UUID aid = Inr (a_id a)"
  then obtain b where b: "b \<in> set (tbl_assessments db)" and p: "uuid_UUID aid = Inr (a_id b)"
    by blast
  from b have "find (\<lambda>a. a_id a = a_id b) (tbl_assessments db) \<noteq> None"
    by (auto simp: find_None_iff)
  then obtain c where "find (\<lambda>a. a_id a = a_id b) (tbl_assessments db) = Some c" by auto
  then have "get_assessment_by_id db aid = Inr (Some c)"
    by (simp add: get_assessment_by_id_parsed [OF p])
  then show "\<exists>res. get_assessment db aid = Inr res"
    by (simp add: get_assessment_found)
next
  assume h: "a \<in> set (tbl_assessments db) \<and> distinct (map a_id (tbl_assessments db))
        \<and> assessment_recommendations db a = []"
  then have "get_assessment_by_id db (uuid_str (a_id a)) = Inr (Some a)"
    by (simp add: get_assessment_by_id_stored)
  then show "get_assessment db (uuid_str (a_id a)) =
          Inr \<lparr>ar_assessment_id = uuid_str (a_id a), ar_recommendations = [],
               ar_created_at = a_created_at a\<rparr>"
    using h by (simp add: get_assessment_found)
qed

theorem not_found_distinct_from_empty_witness:
  "list_all (\<lambda>a. uuid_UUID ''00000000-0000-0000-0000-00000000000b'' \<noteq> Inr (a_id a))
      (tbl_assessments example_db_stored)
   \<and> get_assessment example_db_stored ''00000000-0000-0000-0000-00000000000b''
       = Inl (HTTPException 404)
   \<and> assessment_recommendations example_db_stored
        \<lparr>a_id = 9, a_user_id = None, a_responses = example_responses, a_created_at = 1000\<rparr> = []
   \<and> get_assessment example_db_stored ''00000000-0000-0000-0000-000000000009''
       = Inr \<lparr>ar_assessment_id = ''00000000-0000-0000-0000-000000000009'',
              ar_recommendations = [], ar_created_at = 1000\<rparr>"
proof -
  let ?a = "\<lparr>a_id = 9, a_user_id = None, a_responses = example_responses, a_created_at = 1000\<rparr>"
  let ?missing = "''00000000-0000-0000-0000-00000000000b''"
  have h1: "list_all (\<lambda>a. uuid_UUID ?missing \<noteq> Inr (a_id a)) (tbl_assessments example_db_stored)"
    by code_simp
  have h2: "?a \<in> set (tbl_assessments example_db_stored)" by code_simp
  have h3: "distinct (map a_id (tbl_assessments example_db_stored))" by code_simp
  have h4: "assessment_recommendations example_db_stored ?a = []" by code_simp
  have s9: "uuid_str 9 = ''00000000-0000-0000-0000-000000000009''" by code_simp
  from h1 have h1': "\<forall>a \<in> set (tbl_assessments example_db_stored). uuid_UUID ?missing \<noteq> Inr (a_id a)"
    by (simp only: list_all_iff)
  have c1: "get_assessment example_db_stored ?missing = Inl (HTTPException 404)"
    using not_found_distinct_from_empty [of example_db_stored ?missing ?a] h1' by blast
  have c2: "get_assessment example_db_stored (uuid_str (a_id ?a)) =
          Inr \<lparr>ar_assessment_id = uuid_str (a_id ?a), ar_recommendations = [],
               ar_created_at = a_created_at ?a\<rparr>"
    using not_found_distinct_from_empty [of example_db_stored ?missing ?a] h2 h3 h4 by blast
  from c2 have c2': "get_assessment example_db_stored ''00000000-0000-0000-0000-000000000009''
       = Inr \<lparr>ar_assessment_id = ''00000000-0000-0000-0000-000000000009'',
              ar_recommendations = [], ar_created_at = 1000\<rparr>"
    by (simp add: s9)
  from h1 c1 h4 c2' show ?thesis by blast
qed

subsection \<open>Reconstructing a result\<close>

lemma get_club_by_slug_Some:
  "get_club_by_slug db s = Some c \<Longrightarrow> c_slug c = s"
  by (auto simp: get_club_by_slug_def find_Some_iff)

lemma reconstruct_slug: "map_of (cr_club (reconstruct db row)) ''slug'' = Some (r_club_id row)"
  by (cases "get_club_by_slug db (r_club_id row)")
     (simp_all add: reconstruct_def get_club_by_slug_Some)

lemma reconstruct_placeholder:
  "get_club_by_slug db (r_club_id row) = None \<Longrightarrow>
   cr_club (reconstruct db row) =
     [(''id'', r_club_id row),
      (''name'', title (str_replace ''-'' '' '' (r_club_id row))),
      (''slug'', r_club_id row),
      (''tagline'', ''Club information unavailable''),
      (''logo_url'', [])]"
  by (simp add: reconstruct_def)

lemma reconstruct_core:
  "cr_score (reconstruct db row) = r_score row"
  "cr_rank (reconstruct db row) = r_rank row"
  "cr_reasoning (reconstruct db row) = (case r_reasoning row of None \<Rightarrow> [] | Some items \<Rightarrow> items)"
  by (simp_all add: reconstruct_def Let_def)

text \<open>
  Claim C9. For every stored assessment, \<^const>\<open>get_assessment\<close> returns without raising;
  its recommendations are in ascending order of rank; there is exactly one output entry for
  each stored recommendation row, carrying the row's slug, score, rank and reasoning; and an
  entry whose slug is not in the club directory carries the placeholder club: the slug as
  id and slug, the slug with hyphens replaced by spaces and title-cased as name, the tagline
  ``Club information unavailable'' and an empty logo.
\<close>

theorem reconstruct_keeps_every_row:
  assumes "get_assessment_by_id db aid = Inr (Some a)"
  shows "\<exists>res. get_assessment db aid = Inr res
     \<and> length (ar_recommendations res) = length (assessment_recommendations db a)
     \<and> sorted (map cr_rank (ar_recommendations res))
     \<and> mset (map (\<lambda>r. (map_of (cr_club r) ''slug'', cr_score r, cr_rank r, cr_reasoning r))
               (ar_recommendations res))
       = mset (map (\<lambda>row. (Some (r_club_id row), r_score row, r_rank row,
                           case r_reasoning row of None \<Rightarrow> [] | Some items \<Rightarrow> items))
               (assessment_recommendations db a))
     \<and> (\<forall>r \<in> set (ar_recommendations res). \<forall>s.
           map_of (cr_club r) ''slug'' = Some s \<and> get_club_by_slug db s = None \<longrightarrow>
           cr_club r =
             [(''id'', s),
              (''name'', title (str_replace ''-'' '' '' s)),
              (''slug'', s),
              (''tagline'', ''Club information unavailable''),
              (''logo_url'', [])])"
proof -
  let ?rows = "assessment_recommendations db a"
  let ?sorted = "sort_key r_rank ?rows"
  let ?recs = "map (reconstruct db) ?sorted"
  let ?res = "\<lparr>ar_assessment_id = uuid_str (a_id a), ar_recommendations = ?recs,
              ar_created_at = a_created_at a\<rparr>"
  have r: "get_assessment db aid = Inr ?res"
    using assms by (rule get_assessment_found)
  have len: "length ?recs = length ?rows" by simp
  have "map cr_rank ?recs = map r_rank ?sorted"
    by (simp add: reconstruct_core)
  then have srt: "sorted (map cr_rank ?recs)" by (simp only: sorted_sort_key)
  have "map (\<lambda>r. (map_of (cr_club r) ''slug'', cr_score r, cr_rank r, cr_reasoning r)) ?recs
      = map (\<lambda>row. (Some (r_club_id row), r_score row, r_rank row,
                           case r_reasoning row of None \<Rightarrow> [] | Some items \<Rightarrow> items)) ?sorted"
    by (simp add: reconstruct_core reconstruct_slug)
  then have ms: "mset (map (\<lambda>r. (map_of (cr_club r) ''slug'', cr_score r, cr_rank r, cr_reasoning r)) ?recs)
      = mset (map (\<lambda>row. (Some (r_club_id row), r_score row, r_rank row,
                           case r_reasoning row of None \<Rightarrow> [] | Some items \<Rightarrow> items)) ?rows)"
    by (simp only: mset_map mset_sort)
  have ph: "cr_club r =
             [(''id'', s),
              (''name'', title (str_replace ''-'' '' '' s)),
              (''slug'', s),
              (''tagline'', ''Club information unavailable''),
              (''logo_url'', [])]"
    if "r \<in> set ?recs" and "map_of (cr_club r) ''slug'' = Some s \<and> get_club_by_slug db s = None"
    for r s
  proof -
    from that(1) obtain row where row: "r = reconstruct db row" by auto
    with that(2) have "s = r_club_id row" by (simp add: reconstruct_slug)
    with that(2) row show ?thesis by (simp add: reconstruct_placeholder)
  qed
  have sel: "ar_recommendations ?res = ?recs" by simp
  show ?thesis
  proof (intro exI [of _ ?res] conjI)
    show "get_assessment db aid = Inr ?res" by (rule r)
    show "length (ar_recommendations ?res) = length ?rows"
      unfolding sel by (rule len)
    show "sorted (map cr_rank (ar_recommendations ?res))"
      unfolding sel by (rule srt)
    show "mset (map (\<lambda>r. (map_of (cr_club r) ''slug'', cr_score r, cr_rank r, cr_reasoning r))
               (ar_recommendations ?res))
       = mset (map (\<lambda>row. (Some (r_club_id row), r_score row, r_rank row,
                           case r_reasoning row of None \<Rightarrow> [] | Some items \<Rightarrow> items)) ?rows)"
      unfolding sel by (rule ms)
    show "\<forall>r \<in> set (ar_recommendations ?res). \<forall>s.
           map_of (cr_club r) ''slug'' = Some s \<and> get_club_by_slug db s = None \<longrightarrow>
           cr_club r =
             [(''id'', s),
              (''name'', title (str_replace ''-'' '' '' s)),
              (''slug'', s),
              (''tagline'', ''Club information unavailable''),
              (''logo_url'', [])]"
      unfolding sel using ph by blast
  qed
qed

theorem reconstruct_keeps_every_row_witness:
  "get_assessment_by_id example_db_stored ''00000000-0000-0000-0000-00000000000a''
     = Inr (Some \<lparr>a_id = 10, a_user_id = None, a_responses = example_responses,
                   a_created_at = 2000\<rparr>)
   \<and> get_club_by_slug example_db_stored ''ieee-sb'' = None
   \<and> get_assessment example_db_stored ''00000000-0000-0000-0000-00000000000a''
     = Inr \<lparr>ar_assessment_id = ''00000000-0000-0000-0000-00000000000a'',
            ar_recommendations =
              [\<lparr>cr_club = [(''id'', ''00000000-0000-0000-0000-000000000001''),
                          (''name'', ''ACM Student Chapter''), (''slug'', ''acm''),
                          (''tagline'', ''Computing''), (''logo_url'', [])],
                cr_score = 14, cr_rank = 1, cr_reasoning = [item_for ''enjoy'' ''coding'' 4]\<rparr>,
               \<lparr>cr_club = [(''id'', ''ieee-sb''), (''name'', ''Ieee Sb''), (''slug'', ''ieee-sb''),
                          (''tagline'', ''Club information unavailable''), (''logo_url'', [])],
                cr_score = 11, cr_rank = 2, cr_reasoning = []\<rparr>],
            ar_created_at = 2000\<rparr>
   \<and> length (assessment_recommendations example_db_stored
        \<lparr>a_id = 10, a_user_id = None, a_responses = example_responses, a_created_at = 2000\<rparr>)
     = 2"
proof -
  let ?a = "\<lparr>a_id = 10, a_user_id = None, a_responses = example_responses, a_created_at = 2000\<rparr>"
  let ?aid = "''00000000-0000-0000-0000-00000000000a''"
  have h: "get_assessment_by_id example_db_stored ?aid = Inr (Some ?a)" by code_simp
  have n: "get_club_by_slug example_db_stored ''ieee-sb'' = None" by code_simp
  have e: "get_assessment example_db_stored ?aid
     = Inr \<lparr>ar_assessment_id = ''00000000-0000-0000-0000-00000000000a'',
            ar_recommendations =
              [\<lparr>cr_club = [(''id'', ''00000000-0000-0000-0000-000000000001''),
                          (''name'', ''ACM Student Chapter''), (''slug'', ''acm''),
                          (''tagline'', ''Computing''), (''logo_url'', [])],
                cr_score = 14, cr_rank = 1, cr_reasoning = [item_for ''enjoy'' ''coding'' 4]\<rparr>,
               \<lparr>cr_club = [(''id'', ''ieee-sb''), (''name'', ''Ieee Sb''), (''slug'', ''ieee-sb''),
                          (''tagline'', ''Club information unavailable''), (''logo_url'', [])],
                cr_score = 11, cr_rank = 2, cr_reasoning = []\<rparr>],
            ar_created_at = 2000\<rparr>"
    by code_simp
  obtain res where
    r: "get_assessment example_db_stored ?aid = Inr res" and
    l: "length (ar_recommendations res) = length (assessment_recommendations example_db_stored ?a)"
    using reconstruct_keeps_every_row [OF h] by blast
  from r e have "length (ar_recommendations res) = 2" by auto
  with l have "length (assessment_recommendations example_db_stored ?a) = 2" by simp
  with h n e show ?thesis by blast
qed

subsection \<open>Stored rows and their reconstruction\<close>

lemma ranks_of_recommendations:
  assumes "get_club_recommendations db resp top_n = Inr recs"
  shows "map cr_rank recs = [1..int (length recs)]"
proof -
  from assms obtain cut where recs: "recs = map ranked (py_enumerate 1 cut)"
    unfolding get_club_recommendations_closed_form by blast
  show ?thesis
    unfolding recs cr_rank_ranked map_fst_py_enumerate
    by (simp add: length_py_enumerate)
qed

lemma find_last_only:
  "(\<And>x. x \<in> set xs \<Longrightarrow> \<not> P x) \<Longrightarrow> P a \<Longrightarrow> find P (xs @ [a]) = Some a"
  by (induction xs) simp_all

lemma filter_none: "(\<And>x. x \<in> set xs \<Longrightarrow> \<not> P x) \<Longrightarrow> filter P xs = []"
  by (induction xs) simp_all

lemma reconstruct_stored_row:
  assumes "map_of (cr_club r) ''slug'' \<noteq> None"
  shows "rec_core (reconstruct db (stored_row aid r)) = rec_core r"
  using assms
  by (auto simp: rec_core_def reconstruct_core reconstruct_slug stored_row_def dict_get_def)

subsection \<open>The two commits of a submission\<close>

lemma insert_assessment_stored:
  assumes "insert_assessment uuid_in db new_id owner resp now = Inr (db1, a)"
  shows "new_id \<notin> set (map a_id (tbl_assessments db))"
    and "db1 = db\<lparr>tbl_assessments := tbl_assessments db @ [a]\<rparr>"
    and "a_id a = new_id" and "a_created_at a = now" and "a_responses a = resp"
  using assms
  by (auto simp: insert_assessment_def Let_def split: option.splits if_splits)

lemma insert_assessment_unchanged:
  assumes "insert_assessment uuid_in db new_id owner resp now = Inr (db1, a)"
  shows "tbl_clubs db1 = tbl_clubs db" and "tbl_recommendations db1 = tbl_recommendations db"
    and "tbl_users db1 = tbl_users db"
  using insert_assessment_stored(2) [OF assms] by simp_all

lemma get_club_recommendations_same_clubs:
  "tbl_clubs db1 = tbl_clubs db \<Longrightarrow>
   get_club_recommendations db1 resp n = get_club_recommendations db resp n"
  by (simp add: get_club_recommendations_def)

lemma create_assessment_refused:
  assumes "insert_assessment uuid_in db new_id (ac_user_id assessment_data)
             (model_dump (ac_responses assessment_data)) now = Inl e"
  shows "create_assessment uuid_in commit_rows db assessment_data new_id now = (db, Inl e)"
  using assms by (simp add: create_assessment_def)

lemma create_assessment_stored:
  assumes ins: "insert_assessment uuid_in db new_id (ac_user_id assessment_data)
             (model_dump (ac_responses assessment_data)) now = Inr (db1, a)"
    and recs: "get_club_recommendations db (model_dump (ac_responses assessment_data)) 10 = Inr recs"
  shows "create_assessment uuid_in commit_rows db assessment_data new_id now =
     (case insert_recommendations commit_rows db1 (map (stored_row new_id) recs) of
        Inl e \<Rightarrow> (db1, Inl e)
      | Inr db2 \<Rightarrow> (db2, Inr a))"
proof -
  have slugs: "map_of (cr_club r) ''slug'' \<noteq> None" if "r \<in> set recs" for r
    using recommended_club_origin [OF recs that] by (auto simp: slug_of_scored_entry)
  have th: "those (map (\<lambda>r. map_of (cr_club r) ''slug'') recs)
     = Some (map (\<lambda>r. dict_get (cr_club r) ''slug'' []) recs)"
    using slugs by (rule those_slugs)
  have recs1: "get_club_recommendations db1 (model_dump (ac_responses assessment_data)) 10 = Inr recs"
    using recs get_club_recommendations_same_clubs [OF insert_assessment_unchanged(1) [OF ins]]
    by simp
  have rows: "map (\<lambda>(r, club_slug).
                  \<lparr>r_assessment_id = a_id a, r_club_id = club_slug, r_score = cr_score r,
                   r_rank = cr_rank r, r_reasoning = Some (cr_reasoning r)\<rparr>)
             (zip recs (map (\<lambda>r. dict_get (cr_club r) ''slug'' []) recs))
        = map (stored_row new_id) recs"
    by (simp add: zip_map_self stored_row_def insert_assessment_stored(3) [OF ins])
  show ?thesis
    unfolding create_assessment_def
    by (simp add: ins recs1 th rows)
qed

lemma insert_recommendations_cases:
  "insert_recommendations commit_rows db1 rows = Inr db2 \<Longrightarrow>
   db2 = db1\<lparr>tbl_recommendations := tbl_recommendations db1 @ rows\<rparr>"
  by (auto simp: insert_recommendations_def split: if_splits option.splits)

lemma submit_data:
  "ac_user_id (case current_user of
                    None \<Rightarrow> assessment_data
                  | Some uid \<Rightarrow> assessment_data\<lparr>ac_user_id := Some (uuid_str uid)\<rparr>)
     = effective_owner assessment_data current_user"
  "ac_responses (case current_user of
                    None \<Rightarrow> assessment_data
                  | Some uid \<Rightarrow> assessment_data\<lparr>ac_user_id := Some (uuid_str uid)\<rparr>)
     = ac_responses assessment_data"
  by (simp_all add: effective_owner_def split: option.splits)

lemma submit_assessment_refused:
  assumes "insert_assessment uuid_in db new_id (effective_owner assessment_data current_user)
             (model_dump (ac_responses assessment_data)) now = Inl e"
  shows "submit_assessment uuid_in commit_rows db assessment_data current_user new_id now
           = (db, Inl (HTTPException 500))"
proof -
  define data where "data = (case current_user of
                    None \<Rightarrow> assessment_data
                  | Some uid \<Rightarrow> assessment_data\<lparr>ac_user_id := Some (uuid_str uid)\<rparr>)"
  have d: "ac_user_id data = effective_owner assessment_data current_user"
    "ac_responses data = ac_responses assessment_data"
    unfolding data_def by (rule submit_data)+
  have "create_assessment uuid_in commit_rows db data new_id now = (db, Inl e)"
    using assms by (intro create_assessment_refused) (simp add: d)
  then show ?thesis
    unfolding submit_assessment_def Let_def data_def [symmetric] by simp
qed

lemma submit_assessment_stored:
  assumes ins: "insert_assessment uuid_in db new_id (effective_owner assessment_data current_user)
             (model_dump (ac_responses assessment_data)) now = Inr (db1, a)"
    and recs: "get_club_recommendations db (model_dump (ac_responses assessment_data)) 10 = Inr recs"
  shows "submit_assessment uuid_in commit_rows db assessment_data current_user new_id now =
     (case insert_recommendations commit_rows db1 (map (stored_row new_id) recs) of
        Inl e \<Rightarrow> (db1, Inl (HTTPException 500))
      | Inr db2 \<Rightarrow>
          (db2, Inr \<lparr>ar_assessment_id = uuid_str new_id, ar_recommendations = recs,
                     ar_created_at = now\<rparr>))"
proof -
  define data where "data = (case current_user of
                    None \<Rightarrow> assessment_data
                  | Some uid \<Rightarrow> assessment_data\<lparr>ac_user_id := Some (uuid_str uid)\<rparr>)"
  have d: "ac_user_id data = effective_owner assessment_data current_user"
    "ac_responses data = ac_responses assessment_data"
    unfolding data_def by (rule submit_data)+
  have c: "create_assessment uuid_in commit_rows db data new_id now =
     (case insert_recommendations commit_rows db1 (map (stored_row new_id) recs) of
        Inl e \<Rightarrow> (db1, Inl e)
      | Inr db2 \<Rightarrow> (db2, Inr a))"
    using ins recs by (intro create_assessment_stored) (simp_all add: d)
  show ?thesis
  proof (cases "insert_recommendations commit_rows db1 (map (stored_row new_id) recs)")
    case (Inl e)
    then show ?thesis
      unfolding submit_assessment_def Let_def data_def [symmetric] c by simp
  next
    case (Inr db2)
    then have "tbl_clubs db2 = tbl_clubs db"
      using insert_recommendations_cases [OF Inr] insert_assessment_unchanged(1) [OF ins]
      by simp
    from get_club_recommendations_same_clubs [OF this]
    have "get_club_recommendations db2 (model_dump (ac_responses data)) 10 = Inr recs"
      using recs by (simp add: d)
    then show ?thesis
      unfolding submit_assessment_def Let_def data_def [symmetric] c
      using Inr insert_assessment_stored(3,4) [OF ins] by simp
  qed
qed



subsection \<open>Reading a submission back\<close>

text \<open>
  Claim C5. In a database whose recommendation rows reference stored assessments, whenever
  \<^const>\<open>submit_assessment\<close> succeeds, \<^const>\<open>get_assessment\<close> on the returned
  assessment id, in the database that the submission left behind and with any club directory
  in place of the old one, succeeds and returns the same assessment id and timestamp and a
  recommendation list with the same slugs, scores, ranks and reasoning, in the same order.
\<close>

theorem submit_then_reconstruct:
  assumes fk: "references_ok db"
    and sub: "submit_assessment uuid_in commit_rows db assessment_data current_user new_id now
                = (db', Inr res)"
  shows "\<exists>res'. get_assessment (db'\<lparr>tbl_clubs := clubs'\<rparr>) (ar_assessment_id res) = Inr res'
      \<and> map rec_core (ar_recommendations res') = map rec_core (ar_recommendations res)
      \<and> ar_assessment_id res' = ar_assessment_id res
      \<and> ar_created_at res' = ar_created_at res"
proof -
  let ?resp = "model_dump (ac_responses assessment_data)"
  let ?owner = "effective_owner assessment_data current_user"
  obtain db1 a where ins: "insert_assessment uuid_in db new_id ?owner ?resp now = Inr (db1, a)"
  proof (cases "insert_assessment uuid_in db new_id ?owner ?resp now")
    case (Inl e)
    from submit_assessment_refused [OF Inl, of commit_rows] sub show ?thesis by simp
  next
    case (Inr r)
    then show ?thesis using that by (cases r) simp
  qed
  obtain recs where recs: "get_club_recommendations db ?resp 10 = Inr recs"
    unfolding get_club_recommendations_closed_form by blast
  let ?rows = "map (stored_row new_id) recs"
  have out: "submit_assessment uuid_in commit_rows db assessment_data current_user new_id now =
     (case insert_recommendations commit_rows db1 ?rows of
        Inl e \<Rightarrow> (db1, Inl (HTTPException 500))
      | Inr db2 \<Rightarrow>
          (db2, Inr \<lparr>ar_assessment_id = uuid_str new_id, ar_recommendations = recs,
                     ar_created_at = now\<rparr>))"
    using ins recs by (rule submit_assessment_stored)
  obtain db2 where rows_in: "insert_recommendations commit_rows db1 ?rows = Inr db2"
  proof (cases "insert_recommendations commit_rows db1 ?rows")
    case (Inl e)
    with out sub show ?thesis by simp
  next
    case (Inr d)
    then show ?thesis using that by simp
  qed
  from out sub rows_in have db2: "db' = db2"
    and res: "res = \<lparr>ar_assessment_id = uuid_str new_id, ar_recommendations = recs,
                     ar_created_at = now\<rparr>"
    by simp_all
  have db1: "db1 = db\<lparr>tbl_assessments := tbl_assessments db @ [a]\<rparr>"
    by (rule insert_assessment_stored(2) [OF ins])
  have db': "db' = db\<lparr>tbl_assessments := tbl_assessments db @ [a],
                      tbl_recommendations := tbl_recommendations db @ ?rows\<rparr>"
    using insert_recommendations_cases [OF rows_in] db1 db2 by simp
  have aid: "a_id a = new_id" and at: "a_created_at a = now"
    by (rule insert_assessment_stored(3) [OF ins], rule insert_assessment_stored(4) [OF ins])
  have fresh: "new_id \<notin> set (map a_id (tbl_assessments db))"
    by (rule insert_assessment_stored(1) [OF ins])
  let ?db = "db'\<lparr>tbl_clubs := clubs'\<rparr>"
  have other: "a_id x \<noteq> new_id" if "x \<in> set (tbl_assessments db)" for x
    using fresh that by force
  have "find (\<lambda>x. a_id x = new_id) (tbl_assessments db @ [a]) = Some a"
    using other aid by (intro find_last_only) simp_all
  then have found: "get_assessment_by_id ?db (uuid_str new_id) = Inr (Some a)"
    by (simp add: get_assessment_by_id_parsed [OF uuid_roundtrip] db')
  have old: "filter (\<lambda>r. r_assessment_id r = new_id) (tbl_recommendations db) = []"
  proof (rule filter_none)
    fix row assume "row \<in> set (tbl_recommendations db)"
    with fk have "r_assessment_id row \<in> set (map a_id (tbl_assessments db))"
      by (simp add: references_ok_def list_all_iff)
    with fresh show "r_assessment_id row \<noteq> new_id" by auto
  qed
  have new: "filter (\<lambda>r. r_assessment_id r = new_id) ?rows = ?rows"
    by (simp add: stored_row_def filter_id_conv)
  have rows: "assessment_recommendations ?db a = ?rows"
    by (simp add: assessment_recommendations_def db' aid old new del: filter_map)
  have "map r_rank ?rows = map cr_rank recs"
    by (simp add: stored_row_def)
  also have "\<dots> = [1..int (length recs)]"
    using recs by (rule ranks_of_recommendations)
  finally have "sorted (map r_rank ?rows)" by simp
  then have srt: "sort_key r_rank ?rows = ?rows" by (rule sort_key_id_if_sorted)
  have slug: "map_of (cr_club r) ''slug'' \<noteq> None" if "r \<in> set recs" for r
    using recommended_club_origin [OF recs that] by (auto simp: slug_of_scored_entry)
  have core: "map rec_core (map (reconstruct ?db) ?rows) = map rec_core recs"
    using slug by (simp add: reconstruct_stored_row)
  let ?res' = "\<lparr>ar_assessment_id = uuid_str new_id,
                ar_recommendations = map (reconstruct ?db) ?rows, ar_created_at = now\<rparr>"
  have get: "get_assessment ?db (ar_assessment_id res) = Inr ?res'"
    using get_assessment_found [OF found] by (simp add: res rows srt aid at)
  show ?thesis
  proof (intro exI [of _ ?res'] conjI)
    show "get_assessment ?db (ar_assessment_id res) = Inr ?res'" by (rule get)
    show "map rec_core (ar_recommendations ?res') = map rec_core (ar_recommendations res)"
      using core by (simp add: res)
    show "ar_assessment_id ?res' = ar_assessment_id res" by (simp add: res)
    show "ar_created_at ?res' = ar_created_at res" by (simp add: res)
  qed
qed

theorem submit_then_reconstruct_witness:
  "references_ok example_db
   \<and> result_core (snd (submit_assessment example_uuid_in example_commit_rows example_db
        example_data None 9 1000))
     = Inr (''00000000-0000-0000-0000-000000000009'',
            [(Some ''teamcodelocked'', 16, 1,
              [item_for ''enjoy'' ''coding'' 5, item_for ''domain'' ''ai'' 2,
               item_for ''impact'' ''tech'' 5, item_for ''past'' ''coding'' 4]),
             (Some ''acm'', 14, 2,
              [item_for ''enjoy'' ''coding'' 4, item_for ''domain'' ''ai'' 3,
               item_for ''impact'' ''tech'' 4, item_for ''past'' ''coding'' 3])])
   \<and> result_core
        (get_assessment
           ((fst (submit_assessment example_uuid_in example_commit_rows example_db
              example_data None 9 1000))\<lparr>tbl_clubs := []\<rparr>)
           ''00000000-0000-0000-0000-000000000009'')
     = Inr (''00000000-0000-0000-0000-000000000009'',
            [(Some ''teamcodelocked'', 16, 1,
              [item_for ''enjoy'' ''coding'' 5, item_for ''domain'' ''ai'' 2,
               item_for ''impact'' ''tech'' 5, item_for ''past'' ''coding'' 4]),
             (Some ''acm'', 14, 2,
              [item_for ''enjoy'' ''coding'' 4, item_for ''domain'' ''ai'' 3,
               item_for ''impact'' ''tech'' 4, item_for ''past'' ''coding'' 3])])"
proof -
  let ?out = "submit_assessment example_uuid_in example_commit_rows example_db
        example_data None 9 1000"
  let ?id = "''00000000-0000-0000-0000-000000000009''"
  let ?cores = "[(Some ''teamcodelocked'', 16, 1,
              [item_for ''enjoy'' ''coding'' 5, item_for ''domain'' ''ai'' 2,
               item_for ''impact'' ''tech'' 5, item_for ''past'' ''coding'' 4]),
             (Some ''acm'', 14::int, 2::int,
              [item_for ''enjoy'' ''coding'' 4, item_for ''domain'' ''ai'' 3,
               item_for ''impact'' ''tech'' 4, item_for ''past'' ''coding'' 3])]"
  let ?a = "\<lparr>a_id = 9, a_user_id = None, a_responses = example_responses,
              a_created_at = 1000\<rparr>"
  let ?db1 = "example_db\<lparr>tbl_assessments := [?a]\<rparr>"
  have fk: "references_ok example_db" by code_simp
  have ins: "insert_assessment example_uuid_in example_db 9 (effective_owner example_data None)
        (model_dump (ac_responses example_data)) 1000 = Inr (?db1, ?a)"
    by code_simp
  have s9: "uuid_str 9 = ?id" by code_simp
  have ev: "map_sum id (map rec_core)
      (get_club_recommendations example_db (model_dump (ac_responses example_data)) 10)
    = Inr ?cores"
    by code_simp
  obtain recs where
    recs: "get_club_recommendations example_db (model_dump (ac_responses example_data)) 10
      = Inr recs"
    unfolding get_club_recommendations_closed_form by blast
  with ev have cores: "map rec_core recs = ?cores" by simp
  let ?res = "\<lparr>ar_assessment_id = uuid_str 9, ar_recommendations = recs, ar_created_at = 1000\<rparr>"
  have "\<exists>db2. insert_recommendations example_commit_rows ?db1 (map (stored_row 9) recs)
      = Inr db2"
    by (cases "recs = []") (simp_all add: insert_recommendations_def example_commit_rows_def)
  then obtain db2 where
    rows_in: "insert_recommendations example_commit_rows ?db1 (map (stored_row 9) recs) = Inr db2"
    by blast
  have snd_out: "snd ?out = Inr ?res"
    by (simp add: submit_assessment_stored [OF ins recs] rows_in)
  then have sub: "?out = (fst ?out, Inr ?res)"
    by (simp add: prod_eq_iff)
  have e1: "result_core (snd ?out) = Inr (?id, ?cores)"
    unfolding snd_out by (simp add: result_core_def s9 cores)
  obtain res' where
    g: "get_assessment ((fst ?out)\<lparr>tbl_clubs := []\<rparr>) (ar_assessment_id ?res) = Inr res'" and
    c: "map rec_core (ar_recommendations res') = map rec_core (ar_recommendations ?res)" and
    i: "ar_assessment_id res' = ar_assessment_id ?res"
    using submit_then_reconstruct [OF fk sub, of "[]"] by blast
  from g have g': "get_assessment ((fst ?out)\<lparr>tbl_clubs := []\<rparr>) ?id = Inr res'"
    by (simp add: s9)
  have e2: "result_core (get_assessment ((fst ?out)\<lparr>tbl_clubs := []\<rparr>) ?id)
     = Inr (?id, ?cores)"
    unfolding g' using c i by (simp add: result_core_def s9 cores)
  from fk e1 e2 show ?thesis by blast
qed

end
